theory Spec2Isabelle
  imports Main "HOL-Library.Sublist" "HOL-Library.Product_Lexorder"
begin

section \<open>Strings, exceptions and the file system\<close>

text \<open>
  A JavaScript string is modelled as a \<^typ>\<open>string\<close> whose characters are code units
  below 256. Of the four line terminators that the regular-expression atom \<open>.\<close> refuses,
  the two in that range are line feed and carriage return.
\<close>

definition lineTerminator :: "char \<Rightarrow> bool" where
  "lineTerminator c \<longleftrightarrow> c = CHR 0x0A \<or> c = CHR 0x0D"

text \<open>
  A thrown value: the \<open>code\<close> of a system error (\<open>ENOENT\<close>, \<open>EACCES\<close>, ...), when it has
  one, and its \<open>message\<close>.
\<close>

datatype exn = Exception (code: "string option") (message: string)

text \<open>What \<open>fs.stat\<close> and the walker report about a path: only the kind is used.\<close>

datatype stats = File | Directory | Other

fun isFile :: "stats \<Rightarrow> bool" where
  "isFile File = True"
| "isFile _ = False"

fun isDirectory :: "stats \<Rightarrow> bool" where
  "isDirectory Directory = True"
| "isDirectory _ = False"

text \<open>One item yielded by the \<open>klaw\<close> walker.\<close>

record item =
  path :: string
  stats :: stats

section \<open>Utils.ts\<close>

text \<open>
  \<open>exists\<close>, \<open>fileExists\<close> and \<open>dirExists\<close> take \<open>fs.stat\<close> as the parameter \<open>stat\<close>. All
  callers pass one path, so the \<open>others\<close> rest parameter is empty and \<open>pathname = first\<close>.
  A failure of \<open>stat\<close> whose code is \<open>ENOENT\<close> is the answer "not there"; any other
  failure is thrown again.
\<close>

definition exists :: "(string \<Rightarrow> exn + stats) \<Rightarrow> string \<Rightarrow> exn + stats option" where
  "exists stat pathname =
     (case stat pathname of
        Inr st \<Rightarrow> Inr (Some st)
      | Inl err \<Rightarrow> if code err = Some ''ENOENT'' then Inr None else Inl err)"

definition fileExists :: "(string \<Rightarrow> exn + stats) \<Rightarrow> string \<Rightarrow> exn + bool" where
  "fileExists stat first =
     (case exists stat first of
        Inl err \<Rightarrow> Inl err
      | Inr None \<Rightarrow> Inr False
      | Inr (Some st) \<Rightarrow> Inr (isFile st))"

definition dirExists :: "(string \<Rightarrow> exn + stats) \<Rightarrow> string \<Rightarrow> exn + bool" where
  "dirExists stat first =
     (case exists stat first of
        Inl err \<Rightarrow> Inl err
      | Inr None \<Rightarrow> Inr False
      | Inr (Some st) \<Rightarrow> Inr (isDirectory st))"

text \<open>
  \<open>findFiles\<close>: the walker \<open>klaw.default(parent)\<close> is the parameter \<open>klaw\<close>; it yields the
  items of the tree in its enumeration order, or fails (the \<open>for await\<close> then throws and
  the matches collected so far are lost).
\<close>

definition findFiles ::
  "(string \<Rightarrow> exn + item list) \<Rightarrow> string \<Rightarrow> (item \<Rightarrow> bool) \<Rightarrow> exn + string list" where
  "findFiles klaw parent flt =
     (case klaw parent of
        Inl err \<Rightarrow> Inl err
      | Inr candidates \<Rightarrow> Inr (map path (filter flt candidates)))"

section \<open>node:path on a POSIX host\<close>

definition sep :: char where
  "sep = CHR ''/''"

text \<open>
  \<open>basename\<close> skips the trailing separators and returns the text after the last
  separator before them; \<open>parse(p).base\<close> is the same text.
\<close>

definition basename :: "string \<Rightarrow> string" where
  "basename p = rev (takeWhile (\<lambda>c. c \<noteq> sep) (dropWhile (\<lambda>c. c = sep) (rev p)))"

text \<open>
  \<open>beforeBase p\<close> is \<open>p\<close> reversed with the trailing separators and the base removed: it is
  empty, or its first character is the separator that precedes the base.
\<close>

definition beforeBase :: "string \<Rightarrow> string" where
  "beforeBase p = dropWhile (\<lambda>c. c \<noteq> sep) (dropWhile (\<lambda>c. c = sep) (rev p))"

definition dirname :: "string \<Rightarrow> string" where
  "dirname p =
     (if p = [] then ''.''
      else if length (beforeBase p) \<le> 1 then (if hd p = sep then ''/'' else ''.'')
      else if hd p = sep \<and> length (beforeBase p) = 2 then ''//''
      else rev (tl (beforeBase p)))"

definition parse_dir :: "string \<Rightarrow> string" where
  "parse_dir p =
     (if beforeBase p = [] then (if p \<noteq> [] \<and> hd p = sep then ''/'' else [])
      else if length (beforeBase p) = 1 then ''/''
      else rev (tl (beforeBase p)))"

definition parse_base :: "string \<Rightarrow> string" where
  "parse_base p = basename p"

text \<open>\<open>String.prototype.split\<close> with a one-character separator.\<close>

fun split :: "char \<Rightarrow> string \<Rightarrow> string list" where
  "split s [] = [[]]"
| "split s (c # cs) =
     (if c = s then [] # split s cs else (c # hd (split s cs)) # tl (split s cs))"

section \<open>glob-to-regexp with its default options\<close>

text \<open>
  With neither \<open>extended\<close> nor \<open>globstar\<close> set, the library turns every run of \<open>*\<close> into the
  pattern \<open>.*\<close>, escapes each of the characters it knows to be special, copies every other
  character, and anchors the result with \<open>^\<close> and \<open>$\<close>. The compiled pattern is therefore a
  list of literal characters and \<open>.*\<close> atoms, matched against the whole string. (A backslash
  in the glob is copied unescaped by the library and is outside this model.)
\<close>

datatype re = Chr char | AnyStar

function GlobToRegExp :: "string \<Rightarrow> re list" where
  "GlobToRegExp [] = []"
| "GlobToRegExp (c # cs) =
     (if c = CHR ''*'' then AnyStar # GlobToRegExp (dropWhile (\<lambda>x. x = CHR ''*'') cs)
      else Chr c # GlobToRegExp cs)"
  by pat_completeness auto
termination
  by (relation "measure length") (auto simp: length_dropWhile_le less_Suc_eq_le)

fun regex_test :: "re list \<Rightarrow> string \<Rightarrow> bool" where
  "regex_test [] s = (s = [])"
| "regex_test (Chr c # r) s = (case s of [] \<Rightarrow> False | x # xs \<Rightarrow> x = c \<and> regex_test r xs)"
| "regex_test (AnyStar # r) s =
     (regex_test r s \<or>
      (case s of [] \<Rightarrow> False | x # xs \<Rightarrow> \<not> lineTerminator x \<and> regex_test (AnyStar # r) xs))"

section \<open>The build-docs sub-command: entry-point resolution\<close>

text \<open>
  The first statement of \<open>getSourceFiles\<close> is \<open>new RegExp(`^${process.cwd()}${sep}`)\<close>: the
  working directory goes into the pattern as it is. The constructor is the parameter
  \<open>newRegExp\<close>: given the source of a pattern it throws (a \<open>SyntaxError\<close>), or it returns
  the pattern, which is represented by the one use the code makes of it,
  \<open>s.replace(cwdRegExp, '')\<close>, the function that removes the first match from \<open>s\<close>.
\<close>

type_synonym regexp_constructor = "string \<Rightarrow> exn + (string \<Rightarrow> string)"

definition cwdRegExpSource :: "string \<Rightarrow> string" where
  "cwdRegExpSource cwd = CHR ''^'' # cwd @ [sep]"

text \<open>
  What the pattern does when the working directory contains no character that is special
  in a regular expression: it matches the strings that start with the directory and the
  separator, so the replacement removes that start and leaves any other string as it is.
\<close>

definition replace_cwd :: "string \<Rightarrow> string \<Rightarrow> string" where
  "replace_cwd cwd p = (if prefix (cwd @ [sep]) p then drop (length cwd + 1) p else p)"

text \<open>
  The callback that \<open>getSourceFiles\<close> hands to \<open>findFiles\<close>; \<open>cwdRegExp\<close> is the compiled
  pattern.
\<close>

definition sourceFilter ::
  "(string \<Rightarrow> string) \<Rightarrow> re list list \<Rightarrow> re list list \<Rightarrow> item \<Rightarrow> bool" where
  "sourceFilter cwdRegExp inclusionsRegExp exclusionsRegExp it =
     (if \<not> isFile (stats it) then False
      else
        (let relPath = cwdRegExp (path it) in
         if find (\<lambda>regex. regex_test regex relPath) inclusionsRegExp \<noteq> None then
           (if find (\<lambda>regex. regex_test regex relPath) exclusionsRegExp = None then True
            else False)
         else False))"

text \<open>
  One element of \<open>matches\<close>: of the components spread into it, \<open>dir\<close> and \<open>base\<close> are the two
  that are read.
\<close>

record match =
  dir :: string
  base :: string
  filename :: string
  depth :: int
  isIndex :: bool

definition toMatch :: "string \<Rightarrow> match" where
  "toMatch fname =
     \<lparr> dir = parse_dir fname,
       base = parse_base fname,
       filename = fname,
       depth = int (length (split sep (parse_dir fname))),
       isIndex = (parse_base fname = ''index.ts'') \<rparr>"

text \<open>The comparison function given to \<open>sort\<close>.\<close>

definition compareMatches :: "match \<Rightarrow> match \<Rightarrow> int" where
  "compareMatches a b =
     (if \<not> isIndex a \<and> isIndex b then - 1
      else if isIndex a \<and> \<not> isIndex b then 1
      else depth b - depth a)"

text \<open>
  \<open>Array.prototype.sort\<close> is specified to be stable and, for a consistent comparison
  function, to return the elements in ascending order. Insertion from the right, placing
  an element before the first one it does not exceed, computes that list.
\<close>

fun insert_sorted :: "('a \<Rightarrow> 'a \<Rightarrow> int) \<Rightarrow> 'a \<Rightarrow> 'a list \<Rightarrow> 'a list" where
  "insert_sorted cmp x [] = [x]"
| "insert_sorted cmp x (y # ys) =
     (if cmp x y \<le> 0 then x # y # ys else y # insert_sorted cmp x ys)"

definition array_sort :: "('a \<Rightarrow> 'a \<Rightarrow> int) \<Rightarrow> 'a list \<Rightarrow> 'a list" where
  "array_sort cmp xs = foldr (insert_sorted cmp) xs []"

definition getSourceFiles ::
  "regexp_constructor \<Rightarrow> (string \<Rightarrow> exn + item list) \<Rightarrow> string \<Rightarrow> string \<Rightarrow> string list
     \<Rightarrow> string list \<Rightarrow> exn + string list" where
  "getSourceFiles newRegExp klaw cwd srcRoot inclusions exclusions =
     (case newRegExp (cwdRegExpSource cwd) of
        Inl err \<Rightarrow> Inl err
      | Inr cwdRegExp \<Rightarrow>
          (let inclusionsRegExp = map GlobToRegExp inclusions;
               exclusionsRegExp = map GlobToRegExp exclusions
           in case findFiles klaw srcRoot
                     (sourceFilter cwdRegExp inclusionsRegExp exclusionsRegExp) of
                Inl err \<Rightarrow> Inl err
              | Inr fileList \<Rightarrow>
                  Inr (map (\<lambda>m. cwdRegExp (filename m))
                         (array_sort compareMatches (map toMatch fileList)))))"

text \<open>The two command-line arguments that \<open>getDefaultEntryPoints\<close> reads.\<close>

record build_docs_args =
  src :: "string option"
  preferIndex :: bool

text \<open>The first step of \<open>getDefaultEntryPoints\<close>: the source root.\<close>

definition resolveSrcRoot :: "(string \<Rightarrow> exn + stats) \<Rightarrow> string option \<Rightarrow> exn + string" where
  "resolveSrcRoot stat srcArg =
     (case srcArg of
        Some srcRoot \<Rightarrow> Inr srcRoot
      | None \<Rightarrow>
          (case dirExists stat ''src'' of
             Inl err \<Rightarrow> Inl err
           | Inr True \<Rightarrow> Inr ''src''
           | Inr False \<Rightarrow>
               Inl (Exception None ''Cannot workout the source root, specify with --src'')))"

text \<open>The map \<open>dirHasIndex\<close>, filled by the \<open>forEach\<close>.\<close>

definition dirHasIndex :: "string list \<Rightarrow> (string \<rightharpoonup> bool)" where
  "dirHasIndex srcFiles =
     fold (\<lambda>srcFile m. if basename srcFile = ''index.ts'' then m(dirname srcFile \<mapsto> True) else m)
       srcFiles Map.empty"

definition getDefaultEntryPoints ::
  "regexp_constructor \<Rightarrow> (string \<Rightarrow> exn + stats) \<Rightarrow> (string \<Rightarrow> exn + item list) \<Rightarrow> string
     \<Rightarrow> build_docs_args \<Rightarrow> exn + string list" where
  "getDefaultEntryPoints newRegExp stat klaw cwd args =
     (case resolveSrcRoot stat (src args) of
        Inl err \<Rightarrow> Inl err
      | Inr srcRoot \<Rightarrow>
          (case getSourceFiles newRegExp klaw cwd srcRoot [''**/*.ts''] [''**/*.spec.ts''] of
             Inl err \<Rightarrow> Inl err
           | Inr srcFiles \<Rightarrow>
               Inr (if preferIndex args then
                      filter (\<lambda>srcFile. basename srcFile = ''index.ts''
                                \<or> dirHasIndex srcFiles (dirname srcFile) \<noteq> Some True) srcFiles
                    else srcFiles)))"

section \<open>The host binary: koolie.ts\<close>

text \<open>
  A positional token of the parsed command line: the argument parser yields a string, or
  a number for a token that reads as one. Of a number only its text, \<open>String(n)\<close>, is
  kept: the code looks it up in a map (whose keys are strings) and prints it.
\<close>

datatype token = Str string | Num string

text \<open>
  The parsed command line (\<open>Arguments\<close> of the argument parser): the positional tokens
  \<open>args._\<close> and the options, whose shape is each sub-command's own.
\<close>

record 'o arguments =
  positional :: "token list"
  options :: 'o

text \<open>
  A sub-command. \<open>run\<close> returns a promise: it resolves with the exit code (\<open>Inr\<close>) or is
  rejected with a thrown value (\<open>Inl\<close>). \<open>create\<close>, the callback that declares the options
  to the argument parser, is read by the parser alone and left out.
\<close>

record 'o SubCommand =
  name :: string
  command :: "string option"
  description :: string
  run :: "'o arguments \<Rightarrow> exn + int"

text \<open>
  What a module exports by default: nothing, one value, or an array of values; a value
  is an instance of \<open>SubCommand\<close> or it is not.
\<close>

datatype 'o exported = Instance "'o SubCommand" | NotInstance

datatype 'o default_export = Undefined | Single "'o exported" | Array "'o exported list"

fun instanceOfSubCommand :: "'o exported \<Rightarrow> 'o SubCommand option" where
  "instanceOfSubCommand (Instance sc) = Some sc"
| "instanceOfSubCommand NotInstance = None"

text \<open>
  One call of \<open>console.error\<close> is the list of its arguments: texts and thrown values.
  \<open>ParserHelp\<close> stands for the usage text that the argument parser prints when it fails
  (\<open>showHelpOnFail\<close>).
\<close>

datatype logged = Text string | Thrown exn | ParserHelp

text \<open>
  What \<open>await argv.argv\<close> does: the parser returns the parsed command line, or it throws,
  or it ends the process itself after writing to the error stream, as it does when no
  command is given (\<open>demandCommand\<close>) and when an unknown command is close to a declared
  one (\<open>recommendCommands\<close>).
\<close>

datatype 'o parsed =
  Parsed "'o arguments" | ParserThrew exn | ParserExit "logged list list" int

text \<open>
  The host of the process: working directory, script path, the platform's \<open>path.join\<close>
  and \<open>path.dirname\<close>, the file-system calls, the dynamic \<open>import\<close>, and the argument
  parser once every sub-command has been declared to it (\<open>await argv.argv\<close>).
\<close>

record 'o host =
  process_cwd :: string
  process_argv1 :: string
  path_join :: "string list \<Rightarrow> string"
  path_dirname :: "string \<Rightarrow> string"
  fs_stat :: "string \<Rightarrow> exn + stats"
  fs_readdir :: "string \<Rightarrow> exn + string list"
  fs_readFile :: "string \<Rightarrow> exn + string"
  import_module :: "string \<Rightarrow> exn + 'o default_export"
  yargs_argv :: "'o SubCommand list \<Rightarrow> 'o parsed"

text \<open>
  A step of the discovery either continues with a value or ends the process through
  \<open>process.exit\<close>, after the given calls of \<open>console.error\<close>.
\<close>

datatype 'a step = Continue 'a | Exit "logged list list" int

text \<open>
  The exit status of a process that calls \<open>process.exit(code)\<close> on a POSIX host: the low
  eight bits of the code.
\<close>

definition exitStatus :: "int \<Rightarrow> int" where
  "exitStatus c = c mod 256"

text \<open>
  How the process ends: what was written to the error stream, the exit status, and the
  runners that were called, each with its registry key and the arguments it received.
\<close>

record 'o process_end =
  stderr :: "logged list list"
  status :: int
  invoked :: "(string \<times> 'o arguments) list"

text \<open>\<open>${err}\<close> for an \<open>Error\<close>: its name, and its message when it has one.\<close>

definition exn_toString :: "exn \<Rightarrow> string" where
  "exn_toString err = (if message err = [] then ''Error'' else ''Error: '' @ message err)"

text \<open>
  The first step of \<open>main\<close>: the directory searched for sub-command files. A probe that
  throws leaves \<open>main\<close> (there is no handler around it).
\<close>

definition koolieBinDir :: "'o host \<Rightarrow> exn + string" where
  "koolieBinDir h =
     (let relativeBinDir = path_join h [process_cwd h, ''node_modules'', ''.bin''];
          relativeMain = path_join h [relativeBinDir, ''koolie''];
          relativeMainCmd = path_join h [relativeBinDir, ''koolie.cmd'']
      in case fileExists (fs_stat h) relativeMain of
           Inl err \<Rightarrow> Inl err
         | Inr True \<Rightarrow> Inr relativeBinDir
         | Inr False \<Rightarrow>
             (case fileExists (fs_stat h) relativeMainCmd of
                Inl err \<Rightarrow> Inl err
              | Inr True \<Rightarrow> Inr relativeBinDir
              | Inr False \<Rightarrow> Inr (path_dirname h (process_argv1 h))))"

text \<open>
  The test \<open>/^koolie-SubCmd[^.]*\.js$/\<close>: after the prefix, the class \<open>[^.]\<close> can only stop
  at the first dot, which must begin the final \<open>.js\<close>.
\<close>

definition isSubCommandFile :: "string \<Rightarrow> bool" where
  "isSubCommandFile entry \<longleftrightarrow>
     prefix ''koolie-SubCmd'' entry \<and>
     dropWhile (\<lambda>c. c \<noteq> CHR ''.'') (drop (length ''koolie-SubCmd'') entry) = ''.js''"

definition subCommandFiles :: "'o host \<Rightarrow> string \<Rightarrow> string list step" where
  "subCommandFiles h binDir =
     (case fs_readdir h binDir of
        Inl err \<Rightarrow>
          Exit [[Text (''Error: Failed to file Koolie sub-command files in '' @ binDir @ '': ''
                        @ exn_toString err)]] 1
      | Inr entries \<Rightarrow>
          Continue (map (\<lambda>entry. path_join h [binDir, entry]) (filter isSubCommandFile entries)))"

definition importSubCommandSourceFile ::
  "'o host \<Rightarrow> string \<Rightarrow> 'o SubCommand list \<Rightarrow> 'o SubCommand list step" where
  "importSubCommandSourceFile h fname subCommands =
     (case import_module h fname of
        Inl err \<Rightarrow>
          Exit [[Text (''Failed to import sub-command source: '' @ fname @ '': ''
                        @ exn_toString err)]] 1
      | Inr Undefined \<Rightarrow> Continue subCommands
      | Inr (Array defaultExport) \<Rightarrow>
          Continue (subCommands @ List.map_filter instanceOfSubCommand defaultExport)
      | Inr (Single (Instance sc)) \<Rightarrow> Continue (subCommands @ [sc])
      | Inr (Single NotInstance) \<Rightarrow> Continue subCommands)"

text \<open>
  The pattern \<open>/\.\.\\(.*\.js)/\<close>. \<open>wrapperGroup s\<close> is the text of group 1 when \<open>.*\.js\<close> is
  matched at the start of \<open>s\<close>: the star is greedy, so it first takes one more character
  (never a line terminator) and gives it back only when the rest cannot be matched.
  \<open>wrapperExec contents\<close> is \<open>match[1]\<close> of \<open>exec\<close>: the pattern is tried at each position
  from the left.
\<close>

fun wrapperGroup :: "string \<Rightarrow> string option" where
  "wrapperGroup [] = None"
| "wrapperGroup (c # cs) =
     (case (if lineTerminator c then None else wrapperGroup cs) of
        Some g \<Rightarrow> Some (c # g)
      | None \<Rightarrow> if prefix ''.js'' (c # cs) then Some ''.js'' else None)"

definition dotDotBackslash :: string where
  "dotDotBackslash = [CHR ''.'', CHR ''.'', CHR 0x5C]"

fun wrapperExec :: "string \<Rightarrow> string option" where
  "wrapperExec [] = None"
| "wrapperExec (c # cs) =
     (case (if prefix dotDotBackslash (c # cs) then wrapperGroup (drop 3 (c # cs)) else None) of
        Some g \<Rightarrow> Some g
      | None \<Rightarrow> wrapperExec cs)"

definition importWindowsSubCommand ::
  "'o host \<Rightarrow> string \<Rightarrow> 'o SubCommand list \<Rightarrow> 'o SubCommand list step" where
  "importWindowsSubCommand h wrapper subCommands =
     (case fs_readFile h wrapper of
        Inl err \<Rightarrow>
          Exit [[Text (''Failed to import sub-command source via Windows wrapper: '' @ wrapper
                        @ '': '' @ exn_toString err)]] 1
      | Inr contents \<Rightarrow>
          (case wrapperExec contents of
             Some m \<Rightarrow>
               importSubCommandSourceFile h
                 (path_join h [process_cwd h, ''node_modules'', m]) subCommands
           | None \<Rightarrow> Continue subCommands))"

definition importSubCommand ::
  "'o host \<Rightarrow> string \<Rightarrow> 'o SubCommand list \<Rightarrow> 'o SubCommand list step" where
  "importSubCommand h fname subCommands =
     (let windowsWrapper = fname @ ''.js.cmd'' in
      case fileExists (fs_stat h) windowsWrapper of
        Inl err \<Rightarrow>
          Exit [[Text (''Failed to import sub-command source: '' @ fname @ '': ''
                        @ exn_toString err)]] 1
      | Inr True \<Rightarrow> importWindowsSubCommand h windowsWrapper subCommands
      | Inr False \<Rightarrow> importSubCommandSourceFile h fname subCommands)"

text \<open>The loop of \<open>main\<close> over the sub-command files.\<close>

fun importAll :: "'o host \<Rightarrow> string list \<Rightarrow> 'o SubCommand list \<Rightarrow> 'o SubCommand list step" where
  "importAll h [] subCommands = Continue subCommands"
| "importAll h (f # fs) subCommands =
     (case importSubCommand h f subCommands of
        Exit out c \<Rightarrow> Exit out c
      | Continue subCommands' \<Rightarrow> importAll h fs subCommands')"

text \<open>
  The map \<open>subCommandRunners\<close> after the \<open>reduce\<close>: each sub-command sets its runner under
  its name. (The same \<open>reduce\<close> declares each sub-command to the argument parser; that
  is part of \<open>yargs_argv\<close>.)
\<close>

definition subCommandRunners ::
  "'o SubCommand list \<Rightarrow> (string \<rightharpoonup> ('o arguments \<Rightarrow> exn + int))" where
  "subCommandRunners subCommands = fold (\<lambda>sc m. m(name sc \<mapsto> run sc)) subCommands Map.empty"

text \<open>
  The last \<open>try\<close> of \<open>main\<close>. \<open>args._.shift()\<close> removes the first positional token; on an
  empty list it returns \<open>undefined\<close>, which is no key of the map and is printed as
  \<open>undefined\<close>; a number is no key of the map either. A runner that is called is recorded
  with its key and its arguments.
\<close>

definition dispatch ::
  "(string \<rightharpoonup> ('o arguments \<Rightarrow> exn + int)) \<Rightarrow> 'o parsed \<Rightarrow> 'o process_end" where
  "dispatch runners parsed =
     (case parsed of
        ParserExit out c \<Rightarrow> \<lparr> stderr = out, status = exitStatus c, invoked = [] \<rparr>
      | ParserThrew err \<Rightarrow> \<lparr> stderr = [[Thrown err]], status = exitStatus 1, invoked = [] \<rparr>
      | Parsed args0 \<Rightarrow>
          (let args = args0 \<lparr> positional := tl (positional args0) \<rparr> in
           case positional args0 of
             [] \<Rightarrow>
               \<lparr> stderr = [[Text ''undefined: Unsupported sub-command'']],
                 status = exitStatus 1, invoked = [] \<rparr>
           | Num shown # ts \<Rightarrow>
               \<lparr> stderr = [[Text (shown @ '': Unsupported sub-command'')]],
                 status = exitStatus 1, invoked = [] \<rparr>
           | Str subCommand # ts \<Rightarrow>
               (case runners subCommand of
                  None \<Rightarrow>
                    \<lparr> stderr = [[Text (subCommand @ '': Unsupported sub-command'')]],
                      status = exitStatus 1, invoked = [] \<rparr>
                | Some runner \<Rightarrow>
                    (case runner args of
                       Inr c \<Rightarrow>
                         \<lparr> stderr = [], status = exitStatus c, invoked = [(subCommand, args)] \<rparr>
                     | Inl err \<Rightarrow>
                         \<lparr> stderr = [[Thrown err]], status = exitStatus 1,
                           invoked = [(subCommand, args)] \<rparr>))))"

text \<open>
  \<open>main\<close>, and the handler around it at the top level of the module, which catches
  what the first step throws.
\<close>

definition main :: "'o host \<Rightarrow> 'o process_end" where
  "main h =
     (case koolieBinDir h of
        Inl err \<Rightarrow>
          \<lparr> stderr = [[Text ''Caught unexpected exception'', Thrown err]],
            status = exitStatus 1, invoked = [] \<rparr>
      | Inr binDir \<Rightarrow>
          (case subCommandFiles h binDir of
             Exit out c \<Rightarrow> \<lparr> stderr = out, status = exitStatus c, invoked = [] \<rparr>
           | Continue files \<Rightarrow>
               (case importAll h files [] of
                  Exit out c \<Rightarrow> \<lparr> stderr = out, status = exitStatus c, invoked = [] \<rparr>
                | Continue subCommands \<Rightarrow>
                    dispatch (subCommandRunners subCommands) (yargs_argv h subCommands))))"

section \<open>Concrete trees\<close>

text \<open>
  The working directory is \<open>/w\<close>, except in one scenario where it is \<open>/w2/c++\<close>. The
  constructor \<open>RegExp_scenario\<close> answers for the two patterns that are built from them:
  the first has no special character, the second is refused with a \<open>SyntaxError\<close> (there
  is nothing for the second \<open>+\<close> to repeat). No other pattern is built in the scenarios.
\<close>

definition RegExp_scenario :: regexp_constructor where
  "RegExp_scenario source =
     (if source = ''^/w/'' then Inr (replace_cwd ''/w'')
      else if source = ''^/w2/c++/'' then
        Inl (Exception None ''Invalid regular expression: /^/w2/c++//: Nothing to repeat'')
      else Inl (Exception None ''not a pattern of these scenarios''))"

text \<open>\<open>stat_enoent\<close> finds nothing; \<open>stat_src\<close> finds the directory \<open>src\<close> alone.\<close>

definition stat_enoent :: "string \<Rightarrow> exn + stats" where
  "stat_enoent p = Inl (Exception (Some ''ENOENT'') ''no such file or directory'')"

definition stat_src :: "string \<Rightarrow> exn + stats" where
  "stat_src p = (if p = ''src'' then Inr Directory else stat_enoent p)"

text \<open>
  The tree \<open>a/b/index.ts\<close>, \<open>a/b/widget.ts\<close>, \<open>a/index.ts\<close>, walked from the root \<open>a\<close>
  (the option \<open>--src a\<close>), and the same tree below the default root \<open>src\<close>. The walker
  yields a directory before its entries.
\<close>

definition klaw_tree_a :: "string \<Rightarrow> exn + item list" where
  "klaw_tree_a parent =
     (if parent = ''a'' then
        Inr [\<lparr>path = ''/w/a'', stats = Directory\<rparr>,
             \<lparr>path = ''/w/a/b'', stats = Directory\<rparr>,
             \<lparr>path = ''/w/a/index.ts'', stats = File\<rparr>,
             \<lparr>path = ''/w/a/b/index.ts'', stats = File\<rparr>,
             \<lparr>path = ''/w/a/b/widget.ts'', stats = File\<rparr>]
      else Inl (Exception (Some ''ENOENT'') ''no such file or directory''))"

definition klaw_tree_src :: "string \<Rightarrow> exn + item list" where
  "klaw_tree_src parent =
     (if parent = ''src'' then
        Inr [\<lparr>path = ''/w/src'', stats = Directory\<rparr>,
             \<lparr>path = ''/w/src/a'', stats = Directory\<rparr>,
             \<lparr>path = ''/w/src/a/b'', stats = Directory\<rparr>,
             \<lparr>path = ''/w/src/a/index.ts'', stats = File\<rparr>,
             \<lparr>path = ''/w/src/a/b/index.ts'', stats = File\<rparr>,
             \<lparr>path = ''/w/src/a/b/widget.ts'', stats = File\<rparr>]
      else Inl (Exception (Some ''ENOENT'') ''no such file or directory''))"





section \<open>Concrete hosts\<close>

text \<open>What \<open>path.join\<close> returns for segments that are already normalized, on a POSIX host.\<close>

fun join_slash :: "string list \<Rightarrow> string" where
  "join_slash [] = ''.''"
| "join_slash [x] = x"
| "join_slash (x # y # ys) = x @ ''/'' @ join_slash (y # ys)"

text \<open>
  Sub-commands whose runners resolve with 7, throw, and (two of one name) resolve with 0
  and with 1; one whose runner resolves with 256; one whose name reads as a number; and
  \<open>build-dist\<close>, with a runner left open and with a runner that resolves with 0.
\<close>

definition sc_256 :: "unit SubCommand" where
  "sc_256 = \<lparr>name = ''big'', command = None, description = ''resolves with 256'',
             run = (\<lambda>args. Inr 256)\<rparr>"

definition sc_123 :: "unit SubCommand" where
  "sc_123 = \<lparr>name = ''123'', command = None, description = ''a numeric name'',
             run = (\<lambda>args. Inr 0)\<rparr>"

definition build_dist :: "(unit arguments \<Rightarrow> exn + int) \<Rightarrow> unit SubCommand" where
  "build_dist runner =
     \<lparr>name = ''build-dist'', command = None, description = ''Build the distribution'',
      run = runner\<rparr>"

definition sc_ok :: "unit SubCommand" where
  "sc_ok = \<lparr>name = ''ok'', command = None, description = ''resolves with 7'',
            run = (\<lambda>args. Inr 7)\<rparr>"

definition sc_fail :: "unit SubCommand" where
  "sc_fail = \<lparr>name = ''fail'', command = None, description = ''throws'',
              run = (\<lambda>args. Inl (Exception None ''boom''))\<rparr>"

definition dup_first :: "unit SubCommand" where
  "dup_first = \<lparr>name = ''dup'', command = None, description = ''discovered first'',
                run = (\<lambda>args. Inr 0)\<rparr>"

definition dup_second :: "unit SubCommand" where
  "dup_second = \<lparr>name = ''dup'', command = None, description = ''discovered second'',
                 run = (\<lambda>args. Inr 1)\<rparr>"

text \<open>
  A global installation in \<open>/opt/koolie/bin\<close>, run in \<open>/w\<close>, where no \<open>node_modules\<close>
  exists: the directory holds one sub-command file, whose default export is \<open>exports\<close>,
  and the command line has the positional tokens \<open>tokens\<close>.
\<close>

definition build_dist_ok :: "unit SubCommand" where
  "build_dist_ok = build_dist (\<lambda>args. Inr 0)"

definition demo_host :: "unit default_export \<Rightarrow> token list \<Rightarrow> unit host" where
  "demo_host exports tokens =
     \<lparr> process_cwd = ''/w'',
       process_argv1 = ''/opt/koolie/bin/koolie'',
       path_join = join_slash,
       path_dirname = dirname,
       fs_stat = stat_enoent,
       fs_readdir = (\<lambda>d. if d = ''/opt/koolie/bin''
                           then Inr [''koolie'', ''koolie-SubCmdDemo.js'', ''koolie-SubCmdDemo.bar.js'']
                           else Inl (Exception (Some ''ENOENT'') ''no such file or directory'')),
       fs_readFile = (\<lambda>p. Inl (Exception (Some ''ENOENT'') ''no such file or directory'')),
       import_module = (\<lambda>f. if f = ''/opt/koolie/bin/koolie-SubCmdDemo.js'' then Inr exports
                              else Inl (Exception (Some ''ERR_MODULE_NOT_FOUND'') ''Cannot find module'')),
       yargs_argv = (\<lambda>subCommands. Parsed \<lparr>positional = tokens, options = ()\<rparr>) \<rparr>"

text \<open>
  The same installation with \<open>build-dist\<close> as its only sub-command, asked for \<open>build-dst\<close>:
  the parser finds the declared command close to the token, prints its usage text, an
  empty line and its recommendation, and ends the process with the code 1.
\<close>

definition near_miss_host :: "unit host" where
  "near_miss_host =
     (demo_host (Single (Instance build_dist_ok)) [Str ''build-dst''])
       \<lparr> yargs_argv :=
           (\<lambda>subCommands.
              ParserExit [[ParserHelp], [], [Text ''Did you mean build-dist?'']] 1) \<rparr>"

text \<open>
  A file system where \<open>koolie.cmd\<close> is a regular file of the project-local directory and
  \<open>stat\<close> of \<open>koolie\<close> there fails with \<open>EACCES\<close>.
\<close>

definition stat_eacces :: "string \<Rightarrow> exn + stats" where
  "stat_eacces p =
     (if p = ''/w/node_modules/.bin/koolie'' then Inl (Exception (Some ''EACCES'') ''permission denied'')
      else if p = ''/w/node_modules/.bin/koolie.cmd'' then Inr File
      else stat_enoent p)"

text \<open>
  A wrapper of one line, which runs \<open>koolie-SubCmdDemo.js\<close> of the package \<open>pkg\<close>; a body
  with two references on one line; and a host that reads the wrapper from \<open>wrapper.cmd\<close>
  and a body without a reference from \<open>other.cmd\<close>.
\<close>

definition wrapper_body :: string where
  "wrapper_body =
     ''@'' @ [CHR 0x22] @ ''%~dp0'' @ [CHR 0x5C] @ dotDotBackslash @ ''pkg'' @ [CHR 0x5C]
       @ ''koolie-SubCmdDemo.js'' @ [CHR 0x22] @ ''   %*''"

definition two_references :: string where
  "two_references =
     dotDotBackslash @ ''p'' @ [CHR 0x5C] @ ''a.js '' @ dotDotBackslash @ ''q'' @ [CHR 0x5C] @ ''b.js''"

definition wrapper_host :: "unit host" where
  "wrapper_host =
     (demo_host Undefined [Str ''ok''])
       \<lparr> fs_readFile := (\<lambda>p. if p = ''wrapper.cmd'' then Inr wrapper_body
                               else if p = ''other.cmd'' then Inr ''@ECHO off''
                               else Inl (Exception (Some ''ENOENT'') ''no such file or directory'')),
         import_module :=
           (\<lambda>f. if f = ''/w/node_modules/pkg'' @ [CHR 0x5C] @ ''koolie-SubCmdDemo.js''
                 then Inr (Single (Instance sc_ok))
                 else Inl (Exception (Some ''ERR_MODULE_NOT_FOUND'') ''Cannot find module'')) \<rparr>"

section \<open>Properties of the sort\<close>

lemma compareMatches_le_iff:
  "compareMatches a b \<le> 0 \<longleftrightarrow>
     (\<not> isIndex a \<and> isIndex b) \<or> (isIndex a = isIndex b \<and> depth b \<le> depth a)"
  by (auto simp: compareMatches_def)



text \<open>
  On the matches, the sort is the stable sort of the library by the key made of the index
  status and the negated depth.
\<close>

lemma insert_sorted_insort_key:
  "insert_sorted compareMatches x ys = insort_key (\<lambda>m. (isIndex m, - depth m)) x ys"
  by (induction ys) (auto simp: compareMatches_le_iff less_eq_prod_def)

lemma array_sort_sort_key:
  "array_sort compareMatches xs = sort_key (\<lambda>m. (isIndex m, - depth m)) xs"
  by (induction xs) (simp_all add: array_sort_def sort_key_def insert_sorted_insort_key)


















section \<open>Order of the entry points\<close>




section \<open>The prefer-index filter\<close>

lemma dirHasIndex_fold:
  "fold (\<lambda>srcFile m. if basename srcFile = ''index.ts'' then m(dirname srcFile \<mapsto> True) else m) fs m0 d =
     (if \<exists>f\<in>set fs. basename f = ''index.ts'' \<and> dirname f = d then Some True else m0 d)"
  by (induction fs arbitrary: m0) auto

lemma dirHasIndex_iff:
  "dirHasIndex srcFiles d = Some True \<longleftrightarrow> (\<exists>f\<in>set srcFiles. basename f = ''index.ts'' \<and> dirname f = d)"
  by (simp add: dirHasIndex_def dirHasIndex_fold)

text \<open>
  C4. Let \<open>matched\<close> be the matched files of the resolved root. With prefer-index
  disabled the resolution returns all of them. With prefer-index enabled, what it returns
  from a directory \<open>d\<close> that holds a matched file of base name \<open>index.ts\<close> is exactly the
  matched files of \<open>d\<close> of that base name, and none of the others; from a directory
  without one it returns every matched file of \<open>d\<close>, as it does with the flag disabled.
\<close>

theorem prefer_index_law:
  assumes root: "resolveSrcRoot stat (src args) = Inr srcRoot"
    and matched: "getSourceFiles newRegExp klaw cwd srcRoot [''**/*.ts''] [''**/*.spec.ts''] = Inr matched"
  shows "getDefaultEntryPoints newRegExp stat klaw cwd (args\<lparr>preferIndex := False\<rparr>) = Inr matched \<and>
         (\<exists>kept. getDefaultEntryPoints newRegExp stat klaw cwd (args\<lparr>preferIndex := True\<rparr>) = Inr kept \<and>
            (\<forall>d. filter (\<lambda>f. dirname f = d) kept =
                   (if \<exists>f\<in>set matched. dirname f = d \<and> basename f = ''index.ts''
                    then filter (\<lambda>f. dirname f = d \<and> basename f = ''index.ts'') matched
                    else filter (\<lambda>f. dirname f = d) matched)))"
proof (intro conjI)
  show "getDefaultEntryPoints newRegExp stat klaw cwd (args\<lparr>preferIndex := False\<rparr>) = Inr matched"
    using root matched by (simp add: getDefaultEntryPoints_def)
next
  define kept where "kept = filter (\<lambda>srcFile. basename srcFile = ''index.ts''
                                \<or> dirHasIndex matched (dirname srcFile) \<noteq> Some True) matched"
  have run: "getDefaultEntryPoints newRegExp stat klaw cwd (args\<lparr>preferIndex := True\<rparr>) = Inr kept"
    using root matched by (simp add: getDefaultEntryPoints_def kept_def)
  have "filter (\<lambda>f. dirname f = d) kept =
          (if \<exists>f\<in>set matched. dirname f = d \<and> basename f = ''index.ts''
           then filter (\<lambda>f. dirname f = d \<and> basename f = ''index.ts'') matched
           else filter (\<lambda>f. dirname f = d) matched)" for d
  proof (cases "\<exists>f\<in>set matched. dirname f = d \<and> basename f = ''index.ts''")
    case True
    then have "dirHasIndex matched d = Some True"
      by (auto simp: dirHasIndex_iff)
    then have "filter (\<lambda>f. dirname f = d) kept =
               filter (\<lambda>f. dirname f = d \<and> basename f = ''index.ts'') matched"
      unfolding kept_def filter_filter by (intro filter_cong) auto
    then show ?thesis by (subst if_P [OF True])
  next
    case False
    then have "dirHasIndex matched d \<noteq> Some True"
      by (auto simp: dirHasIndex_iff)
    then have "filter (\<lambda>f. dirname f = d) kept = filter (\<lambda>f. dirname f = d) matched"
      unfolding kept_def filter_filter by (intro filter_cong) auto
    then show ?thesis by (subst if_not_P [OF False])
  qed
  with run show "\<exists>kept. getDefaultEntryPoints newRegExp stat klaw cwd (args\<lparr>preferIndex := True\<rparr>) = Inr kept \<and>
            (\<forall>d. filter (\<lambda>f. dirname f = d) kept =
                   (if \<exists>f\<in>set matched. dirname f = d \<and> basename f = ''index.ts''
                    then filter (\<lambda>f. dirname f = d \<and> basename f = ''index.ts'') matched
                    else filter (\<lambda>f. dirname f = d) matched))"
    by blast
qed


theorem prefer_index_law_witness:
  "resolveSrcRoot stat_enoent (src \<lparr>src = Some ''a'', preferIndex = True\<rparr>) = Inr ''a'' \<and>
   getSourceFiles RegExp_scenario klaw_tree_a ''/w'' ''a'' [''**/*.ts''] [''**/*.spec.ts'']
     = Inr [''a/b/widget.ts'', ''a/b/index.ts'', ''a/index.ts''] \<and>
   getDefaultEntryPoints RegExp_scenario stat_enoent klaw_tree_a ''/w''
       (\<lparr>src = Some ''a'', preferIndex = True\<rparr>\<lparr>preferIndex := False\<rparr>)
     = Inr [''a/b/widget.ts'', ''a/b/index.ts'', ''a/index.ts''] \<and>
   (\<exists>kept. getDefaultEntryPoints RegExp_scenario stat_enoent klaw_tree_a ''/w''
              (\<lparr>src = Some ''a'', preferIndex = True\<rparr>\<lparr>preferIndex := True\<rparr>) = Inr kept \<and>
          filter (\<lambda>f. dirname f = ''a/b'') kept = [''a/b/index.ts''])"
proof -
  have r: "resolveSrcRoot stat_enoent (src \<lparr>src = Some ''a'', preferIndex = True\<rparr>) = Inr ''a''"
    by code_simp
  have m: "getSourceFiles RegExp_scenario klaw_tree_a ''/w'' ''a'' [''**/*.ts''] [''**/*.spec.ts'']
             = Inr [''a/b/widget.ts'', ''a/b/index.ts'', ''a/index.ts'']"
    by code_simp
  have d: "(if \<exists>f\<in>set [''a/b/widget.ts'', ''a/b/index.ts'', ''a/index.ts''].
                 dirname f = ''a/b'' \<and> basename f = ''index.ts''
            then filter (\<lambda>f. dirname f = ''a/b'' \<and> basename f = ''index.ts'')
                   [''a/b/widget.ts'', ''a/b/index.ts'', ''a/index.ts'']
            else filter (\<lambda>f. dirname f = ''a/b'')
                   [''a/b/widget.ts'', ''a/b/index.ts'', ''a/index.ts''])
           = [''a/b/index.ts'']"
    by code_simp
  from prefer_index_law [OF r m] obtain kept where
    f: "getDefaultEntryPoints RegExp_scenario stat_enoent klaw_tree_a ''/w''
          (\<lparr>src = Some ''a'', preferIndex = True\<rparr>\<lparr>preferIndex := False\<rparr>)
        = Inr [''a/b/widget.ts'', ''a/b/index.ts'', ''a/index.ts'']"
    and k: "getDefaultEntryPoints RegExp_scenario stat_enoent klaw_tree_a ''/w''
              (\<lparr>src = Some ''a'', preferIndex = True\<rparr>\<lparr>preferIndex := True\<rparr>) = Inr kept"
    and a: "\<forall>d. filter (\<lambda>f. dirname f = d) kept =
                   (if \<exists>f\<in>set [''a/b/widget.ts'', ''a/b/index.ts'', ''a/index.ts''].
                         dirname f = d \<and> basename f = ''index.ts''
                    then filter (\<lambda>f. dirname f = d \<and> basename f = ''index.ts'')
                           [''a/b/widget.ts'', ''a/b/index.ts'', ''a/index.ts'']
                    else filter (\<lambda>f. dirname f = d)
                           [''a/b/widget.ts'', ''a/b/index.ts'', ''a/index.ts''])"
    by blast
  from a d have "filter (\<lambda>f. dirname f = ''a/b'') kept = [''a/b/index.ts'']"
    by (simp only:)
  with r m f k show ?thesis by blast
qed

section \<open>The matched set\<close>








section \<open>The scenario of the three files\<close>

text \<open>
  C1, as stated, fails: with prefer-index enabled \<open>a/b/widget.ts\<close> is not returned, whether
  the tree is walked from the root \<open>a\<close> or lies below the default root \<open>src\<close>.
\<close>

theorem three_files_counterexample:
  "getDefaultEntryPoints RegExp_scenario stat_enoent klaw_tree_a ''/w'' \<lparr>src = Some ''a'', preferIndex = True\<rparr>
     \<noteq> Inr [''a/b/widget.ts'', ''a/b/index.ts'', ''a/index.ts''] \<and>
   getDefaultEntryPoints RegExp_scenario stat_src klaw_tree_src ''/w'' \<lparr>src = None, preferIndex = True\<rparr>
     \<noteq> Inr [''src/a/b/widget.ts'', ''src/a/b/index.ts'', ''src/a/index.ts''] \<and>
   getDefaultEntryPoints RegExp_scenario stat_src klaw_tree_src ''/w'' \<lparr>src = None, preferIndex = True\<rparr>
     \<noteq> Inr [''a/b/widget.ts'', ''a/b/index.ts'', ''a/index.ts'']"
  by code_simp

text \<open>
  C1, amended. For the tree \<open>a/b/index.ts\<close>, \<open>a/b/widget.ts\<close>, \<open>a/index.ts\<close> with prefer-index
  enabled, \<open>getDefaultEntryPoints\<close> returns the two index files, the deeper first; the
  list of three files is what it returns with prefer-index disabled.
\<close>

theorem three_files_entry_points:
  "getDefaultEntryPoints RegExp_scenario stat_enoent klaw_tree_a ''/w'' \<lparr>src = Some ''a'', preferIndex = True\<rparr>
     = Inr [''a/b/index.ts'', ''a/index.ts''] \<and>
   getDefaultEntryPoints RegExp_scenario stat_src klaw_tree_src ''/w'' \<lparr>src = None, preferIndex = True\<rparr>
     = Inr [''src/a/b/index.ts'', ''src/a/index.ts''] \<and>
   getDefaultEntryPoints RegExp_scenario stat_enoent klaw_tree_a ''/w'' \<lparr>src = Some ''a'', preferIndex = False\<rparr>
     = Inr [''a/b/widget.ts'', ''a/b/index.ts'', ''a/index.ts'']"
  by code_simp

section \<open>Discovery and dispatch\<close>

lemma isSubCommandFile_iff:
  "isSubCommandFile entry \<longleftrightarrow>
     (\<exists>mid. entry = ''koolie-SubCmd'' @ mid @ ''.js'' \<and> CHR ''.'' \<notin> set mid)"
proof
  assume a: "isSubCommandFile entry"
  then obtain rest where e: "entry = ''koolie-SubCmd'' @ rest"
    by (auto simp: isSubCommandFile_def prefix_def)
  with a have d: "dropWhile (\<lambda>c. c \<noteq> CHR ''.'') rest = ''.js''"
    by (simp add: isSubCommandFile_def)
  have "rest = takeWhile (\<lambda>c. c \<noteq> CHR ''.'') rest @ dropWhile (\<lambda>c. c \<noteq> CHR ''.'') rest"
    by simp
  with d have r: "rest = takeWhile (\<lambda>c. c \<noteq> CHR ''.'') rest @ ''.js''"
    by simp
  have "CHR ''.'' \<notin> set (takeWhile (\<lambda>c. c \<noteq> CHR ''.'') rest)"
    by (auto dest: set_takeWhileD)
  with e r show "\<exists>mid. entry = ''koolie-SubCmd'' @ mid @ ''.js'' \<and> CHR ''.'' \<notin> set mid"
    by metis
next
  assume "\<exists>mid. entry = ''koolie-SubCmd'' @ mid @ ''.js'' \<and> CHR ''.'' \<notin> set mid"
  then obtain mid where e: "entry = ''koolie-SubCmd'' @ mid @ ''.js''" and m: "CHR ''.'' \<notin> set mid"
    by blast
  from m have "dropWhile (\<lambda>c. c \<noteq> CHR ''.'') (mid @ ''.js'') = ''.js''"
    by (subst dropWhile_append2) auto
  with e show "isSubCommandFile entry"
    by (simp add: isSubCommandFile_def)
qed

lemma find_append:
  "find P (xs @ ys) = (case find P xs of Some x \<Rightarrow> Some x | None \<Rightarrow> find P ys)"
  by (induction xs) auto

lemma runners_fold:
  "fold (\<lambda>sc m. m(name sc \<mapsto> run sc)) scs m0 key =
     (case find (\<lambda>sc. name sc = key) (rev scs) of Some sc \<Rightarrow> Some (run sc) | None \<Rightarrow> m0 key)"
proof (induction scs arbitrary: m0)
  case Nil
  show ?case by simp
next
  case (Cons sc scs)
  have "fold (\<lambda>sc m. m(name sc \<mapsto> run sc)) (sc # scs) m0 key =
        fold (\<lambda>sc m. m(name sc \<mapsto> run sc)) scs (m0(name sc \<mapsto> run sc)) key"
    by simp
  also have "\<dots> = (case find (\<lambda>sc. name sc = key) (rev scs) of
                      Some sc' \<Rightarrow> Some (run sc')
                    | None \<Rightarrow> (m0(name sc \<mapsto> run sc)) key)"
    by (rule Cons.IH)
  also have "\<dots> = (case find (\<lambda>sc. name sc = key) (rev (sc # scs)) of
                      Some sc' \<Rightarrow> Some (run sc')
                    | None \<Rightarrow> m0 key)"
    by (cases "find (\<lambda>sc. name sc = key) (rev scs)") (auto simp: find_append)
  finally show ?case .
qed

lemma main_dispatch:
  assumes "koolieBinDir h = Inr binDir" and "subCommandFiles h binDir = Continue files"
    and "importAll h files [] = Continue subCommands"
  shows "main h = dispatch (subCommandRunners subCommands) (yargs_argv h subCommands)"
  using assms by (simp add: main_def)

lemma exitStatus_1 [simp]: "exitStatus 1 = 1"
  by (simp add: exitStatus_def)

lemma dispatch_resolves:
  assumes "runners key = Some runner" and "positional args = Str key # rest"
    and "runner (args\<lparr>positional := rest\<rparr>) = Inr n"
  shows "dispatch runners (Parsed args) =
           \<lparr>stderr = [], status = n mod 256, invoked = [(key, args\<lparr>positional := rest\<rparr>)]\<rparr>"
  using assms by (simp add: dispatch_def exitStatus_def)

lemma dispatch_throws:
  assumes "runners key = Some runner" and "positional args = Str key # rest"
    and "runner (args\<lparr>positional := rest\<rparr>) = Inl err"
  shows "dispatch runners (Parsed args) =
           \<lparr>stderr = [[Thrown err]], status = 1, invoked = [(key, args\<lparr>positional := rest\<rparr>)]\<rparr>"
  using assms by (simp add: dispatch_def)

lemma dispatch_unsupported:
  assumes "runners key = None" and "positional args = Str key # rest"
  shows "dispatch runners (Parsed args) =
           \<lparr>stderr = [[Text (key @ '': Unsupported sub-command'')]], status = 1, invoked = []\<rparr>"
  using assms by (simp add: dispatch_def)

lemma dispatch_number:
  assumes "positional args = Num shown # rest"
  shows "dispatch runners (Parsed args) =
           \<lparr>stderr = [[Text (shown @ '': Unsupported sub-command'')]], status = 1, invoked = []\<rparr>"
  using assms by (simp add: dispatch_def)

lemma dispatch_parser_exit:
  "dispatch runners (ParserExit out c) = \<lparr>stderr = out, status = c mod 256, invoked = []\<rparr>"
  by (simp add: dispatch_def exitStatus_def)

lemma demo_host_discovery:
  "koolieBinDir (demo_host exports tokens) = Inr ''/opt/koolie/bin''"
  "subCommandFiles (demo_host exports tokens) ''/opt/koolie/bin''
     = Continue [''/opt/koolie/bin/koolie-SubCmdDemo.js'']"
  "yargs_argv (demo_host exports tokens) subCommands = Parsed \<lparr>positional = tokens, options = ()\<rparr>"
  "importSubCommand (demo_host exports tokens) ''/opt/koolie/bin/koolie-SubCmdDemo.js'' acc
     = importSubCommandSourceFile (demo_host exports tokens) ''/opt/koolie/bin/koolie-SubCmdDemo.js'' acc"
  "import_module (demo_host exports tokens) ''/opt/koolie/bin/koolie-SubCmdDemo.js'' = Inr exports"
  by (simp_all add: koolieBinDir_def subCommandFiles_def demo_host_def fileExists_def
      exists_def stat_enoent_def dirname_def beforeBase_def sep_def isSubCommandFile_def
      importSubCommand_def)

lemma fileExists_cases:
  "fileExists stat p =
     (case stat p of
        Inr st \<Rightarrow> Inr (st = File)
      | Inl err \<Rightarrow> if code err = Some ''ENOENT'' then Inr False else Inl err)"
  by (cases "stat p") (auto simp: fileExists_def exists_def elim: isFile.elims)

text \<open>
  C10. A directory entry passes the test of \<open>main\<close> exactly when it is \<open>koolie-SubCmd\<close>,
  then characters none of which is a dot, then \<open>.js\<close>; \<open>koolie-SubCmdFoo.bar.js\<close> does not
  pass; and the files handed to the import loop are the entries that pass, joined to the
  directory.
\<close>

theorem sub_command_file_pattern:
  "(isSubCommandFile entry \<longleftrightarrow>
      (\<exists>mid. entry = ''koolie-SubCmd'' @ mid @ ''.js'' \<and> CHR ''.'' \<notin> set mid)) \<and>
   \<not> isSubCommandFile ''koolie-SubCmdFoo.bar.js'' \<and>
   (fs_readdir h binDir = Inr entries \<longrightarrow>
      subCommandFiles h binDir =
        Continue (map (\<lambda>entry. path_join h [binDir, entry]) (filter isSubCommandFile entries)))"
proof (intro conjI impI)
  show "isSubCommandFile entry \<longleftrightarrow>
      (\<exists>mid. entry = ''koolie-SubCmd'' @ mid @ ''.js'' \<and> CHR ''.'' \<notin> set mid)"
    by (rule isSubCommandFile_iff)
  show "\<not> isSubCommandFile ''koolie-SubCmdFoo.bar.js''"
    by code_simp
  assume "fs_readdir h binDir = Inr entries"
  then show "subCommandFiles h binDir =
        Continue (map (\<lambda>entry. path_join h [binDir, entry]) (filter isSubCommandFile entries))"
    by (simp add: subCommandFiles_def)
qed

theorem sub_command_file_pattern_witness:
  "fs_readdir (demo_host Undefined []) ''/opt/koolie/bin''
     = Inr [''koolie'', ''koolie-SubCmdDemo.js'', ''koolie-SubCmdDemo.bar.js''] \<and>
   subCommandFiles (demo_host Undefined []) ''/opt/koolie/bin''
     = Continue [''/opt/koolie/bin/koolie-SubCmdDemo.js'']"
proof -
  have r: "fs_readdir (demo_host Undefined []) ''/opt/koolie/bin''
             = Inr [''koolie'', ''koolie-SubCmdDemo.js'', ''koolie-SubCmdDemo.bar.js'']"
    by code_simp
  have e: "map (\<lambda>entry. path_join (demo_host Undefined []) [''/opt/koolie/bin'', entry])
             (filter isSubCommandFile [''koolie'', ''koolie-SubCmdDemo.js'', ''koolie-SubCmdDemo.bar.js''])
           = [''/opt/koolie/bin/koolie-SubCmdDemo.js'']"
    by code_simp
  note t = sub_command_file_pattern [of "[]" "demo_host Undefined []" "''/opt/koolie/bin''"
      "[''koolie'', ''koolie-SubCmdDemo.js'', ''koolie-SubCmdDemo.bar.js'']"]
  from t [THEN conjunct2, THEN conjunct2, THEN mp, OF r] e
  have "subCommandFiles (demo_host Undefined []) ''/opt/koolie/bin''
          = Continue [''/opt/koolie/bin/koolie-SubCmdDemo.js'']"
    by (simp only:)
  with r show ?thesis by (intro conjI)
qed

section \<open>A name that is not registered\<close>

text \<open>
  C7, as stated, fails: asked for \<open>build-dst\<close> when \<open>build-dist\<close> is the only sub-command,
  the process ends in the argument parser, which prints its usage text and the
  recommendation of \<open>build-dist\<close>; the diagnostic of \<open>main\<close> that names the token is not
  printed.
\<close>

theorem unsupported_sub_command_counterexample:
  "subCommandRunners [build_dist_ok] ''build-dst'' = None \<and>
   main near_miss_host =
     \<lparr>stderr = [[ParserHelp], [], [Text ''Did you mean build-dist?'']], status = 1, invoked = []\<rparr> \<and>
   main near_miss_host \<noteq>
     \<lparr>stderr = [[Text ''build-dst: Unsupported sub-command'']], status = 1, invoked = []\<rparr>"
  by code_simp

text \<open>
  C7, amended. When discovery succeeds and the argument parser returns the parsed command
  line, and no runner is registered under its first positional token (a number is never
  a key), the process writes the token followed by \<open>: Unsupported sub-command\<close> to the
  error stream, exits with status 1, and no runner is called. When the parser ends the
  process itself, no runner is called either. So it is for \<open>frobnicate\<close> when \<open>build-dist\<close>
  is the only sub-command, whatever its runner.
\<close>

theorem unsupported_sub_command:
  "(koolieBinDir h = Inr binDir \<and> subCommandFiles h binDir = Continue files \<and>
    importAll h files [] = Continue subCommands \<longrightarrow>
      (yargs_argv h subCommands = Parsed args \<and> positional args = Str key # rest \<and>
       subCommandRunners subCommands key = None \<longrightarrow>
         main h = \<lparr>stderr = [[Text (key @ '': Unsupported sub-command'')]], status = 1,
                   invoked = []\<rparr>) \<and>
      (yargs_argv h subCommands = Parsed args \<and> positional args = Num shown # rest \<longrightarrow>
         main h = \<lparr>stderr = [[Text (shown @ '': Unsupported sub-command'')]], status = 1,
                   invoked = []\<rparr>) \<and>
      (yargs_argv h subCommands = ParserExit out c \<longrightarrow>
         main h = \<lparr>stderr = out, status = c mod 256, invoked = []\<rparr>)) \<and>
   main (demo_host (Single (Instance (build_dist runner))) [Str ''frobnicate'']) =
     \<lparr>stderr = [[Text ''frobnicate: Unsupported sub-command'']], status = 1, invoked = []\<rparr>"
proof (intro conjI impI)
  assume d: "koolieBinDir h = Inr binDir \<and> subCommandFiles h binDir = Continue files \<and>
    importAll h files [] = Continue subCommands"
  then have m: "main h = dispatch (subCommandRunners subCommands) (yargs_argv h subCommands)"
    using main_dispatch [of h binDir files subCommands] by simp
  {
    assume "yargs_argv h subCommands = Parsed args \<and> positional args = Str key # rest \<and>
       subCommandRunners subCommands key = None"
    with m show "main h = \<lparr>stderr = [[Text (key @ '': Unsupported sub-command'')]], status = 1,
                   invoked = []\<rparr>"
      by (simp add: dispatch_unsupported)
  }
  {
    assume "yargs_argv h subCommands = Parsed args \<and> positional args = Num shown # rest"
    with m show "main h = \<lparr>stderr = [[Text (shown @ '': Unsupported sub-command'')]], status = 1,
                   invoked = []\<rparr>"
      by (simp add: dispatch_number)
  }
  {
    assume "yargs_argv h subCommands = ParserExit out c"
    with m show "main h = \<lparr>stderr = out, status = c mod 256, invoked = []\<rparr>"
      by (simp add: dispatch_parser_exit)
  }
next
  let ?h = "demo_host (Single (Instance (build_dist runner))) [Str ''frobnicate'']"
  have i: "importAll ?h [''/opt/koolie/bin/koolie-SubCmdDemo.js''] [] = Continue [build_dist runner]"
    by (simp add: demo_host_discovery importSubCommandSourceFile_def)
  have n: "subCommandRunners [build_dist runner] ''frobnicate'' = None"
    by (simp add: subCommandRunners_def build_dist_def)
  have "main ?h = dispatch (subCommandRunners [build_dist runner])
                    (Parsed \<lparr>positional = [Str ''frobnicate''], options = ()\<rparr>)"
    using main_dispatch [of ?h "''/opt/koolie/bin''" "[''/opt/koolie/bin/koolie-SubCmdDemo.js'']"
        "[build_dist runner]"] i
    by (simp add: demo_host_discovery)
  with n show "main ?h =
     \<lparr>stderr = [[Text ''frobnicate: Unsupported sub-command'']], status = 1, invoked = []\<rparr>"
    by (simp add: dispatch_unsupported [where rest = "[]"])
qed

theorem unsupported_sub_command_witness:
  "main (demo_host (Single (Instance sc_ok)) [Str ''frobnicate'', Str ''x'']) =
     \<lparr>stderr = [[Text (''frobnicate'' @ '': Unsupported sub-command'')]], status = 1,
      invoked = []\<rparr> \<and>
   main (demo_host (Single (Instance sc_ok)) [Num ''42'']) =
     \<lparr>stderr = [[Text (''42'' @ '': Unsupported sub-command'')]], status = 1, invoked = []\<rparr> \<and>
   main near_miss_host =
     \<lparr>stderr = [[ParserHelp], [], [Text ''Did you mean build-dist?'']], status = 1,
      invoked = []\<rparr>"
proof -
  let ?h = "demo_host (Single (Instance sc_ok)) [Str ''frobnicate'', Str ''x'']"
  let ?g = "demo_host (Single (Instance sc_ok)) [Num ''42'']"
  have i: "importAll (demo_host (Single (Instance sc_ok)) tokens)
             [''/opt/koolie/bin/koolie-SubCmdDemo.js''] [] = Continue [sc_ok]" for tokens
    by (simp add: demo_host_discovery importSubCommandSourceFile_def)
  have d: "koolieBinDir (demo_host (Single (Instance sc_ok)) tokens) = Inr ''/opt/koolie/bin'' \<and>
           subCommandFiles (demo_host (Single (Instance sc_ok)) tokens) ''/opt/koolie/bin''
             = Continue [''/opt/koolie/bin/koolie-SubCmdDemo.js''] \<and>
           importAll (demo_host (Single (Instance sc_ok)) tokens)
             [''/opt/koolie/bin/koolie-SubCmdDemo.js''] [] = Continue [sc_ok]" for tokens
    by (intro conjI i) (simp_all add: demo_host_discovery)
  have p: "yargs_argv ?h [sc_ok] = Parsed \<lparr>positional = [Str ''frobnicate'', Str ''x''], options = ()\<rparr> \<and>
           positional \<lparr>positional = [Str ''frobnicate'', Str ''x''], options = ()\<rparr>
             = Str ''frobnicate'' # [Str ''x''] \<and>
           subCommandRunners [sc_ok] ''frobnicate'' = None"
    by (simp add: demo_host_discovery subCommandRunners_def sc_ok_def)
  have q: "yargs_argv ?g [sc_ok] = Parsed \<lparr>positional = [Num ''42''], options = ()\<rparr> \<and>
           positional \<lparr>positional = [Num ''42''], options = ()\<rparr> = Num ''42'' # []"
    by (simp add: demo_host_discovery)
  note t = unsupported_sub_command [of ?h "''/opt/koolie/bin''"
      "[''/opt/koolie/bin/koolie-SubCmdDemo.js'']" "[sc_ok]"
      "\<lparr>positional = [Str ''frobnicate'', Str ''x''], options = ()\<rparr>" "''frobnicate''" "[Str ''x'']",
      THEN conjunct1, THEN mp, OF d]
  note u = unsupported_sub_command [of ?g "''/opt/koolie/bin''"
      "[''/opt/koolie/bin/koolie-SubCmdDemo.js'']" "[sc_ok]"
      "\<lparr>positional = [Num ''42''], options = ()\<rparr>" _ "[]" "''42''",
      THEN conjunct1, THEN mp, OF d]
  have dn: "koolieBinDir near_miss_host = Inr ''/opt/koolie/bin'' \<and>
           subCommandFiles near_miss_host ''/opt/koolie/bin''
             = Continue [''/opt/koolie/bin/koolie-SubCmdDemo.js''] \<and>
           importAll near_miss_host [''/opt/koolie/bin/koolie-SubCmdDemo.js''] []
             = Continue [build_dist_ok]"
    by (simp add: near_miss_host_def koolieBinDir_def subCommandFiles_def demo_host_def
        fileExists_def exists_def stat_enoent_def dirname_def beforeBase_def sep_def
        isSubCommandFile_def importSubCommand_def importSubCommandSourceFile_def)
  have pn: "yargs_argv near_miss_host [build_dist_ok]
              = ParserExit [[ParserHelp], [], [Text ''Did you mean build-dist?'']] 1"
    by (simp add: near_miss_host_def)
  note v = unsupported_sub_command [of near_miss_host "''/opt/koolie/bin''"
      "[''/opt/koolie/bin/koolie-SubCmdDemo.js'']" "[build_dist_ok]" _ _ _ _
      "[[ParserHelp], [], [Text ''Did you mean build-dist?'']]" 1,
      THEN conjunct1, THEN mp, OF dn]
  have o: "(1::int) mod 256 = 1"
    by simp
  from t [THEN conjunct1, THEN mp, OF p] u [THEN conjunct2, THEN conjunct1, THEN mp, OF q]
    v [THEN conjunct2, THEN conjunct2, THEN mp, OF pn, unfolded o]
  show ?thesis by (intro conjI)
qed

section \<open>The exit status of a runner\<close>

text \<open>
  C6, as stated, fails: a runner that resolves with 256 gives the exit status 0, and a
  sub-command whose name reads as a number is not found under the number that the parser
  yields for it.
\<close>

theorem runner_exit_status_counterexample:
  "subCommandRunners [sc_256] ''big'' = Some (run sc_256) \<and>
   run sc_256 \<lparr>positional = [], options = ()\<rparr> = Inr 256 \<and>
   main (demo_host (Single (Instance sc_256)) [Str ''big'']) =
     \<lparr>stderr = [], status = 0, invoked = [(''big'', \<lparr>positional = [], options = ()\<rparr>)]\<rparr> \<and>
   subCommandRunners [sc_123] ''123'' = Some (run sc_123) \<and>
   main (demo_host (Single (Instance sc_123)) [Num ''123'']) =
     \<lparr>stderr = [[Text ''123: Unsupported sub-command'']], status = 1, invoked = []\<rparr>"
proof (intro conjI)
  show "subCommandRunners [sc_256] ''big'' = Some (run sc_256)"
    by (simp add: subCommandRunners_def sc_256_def)
  show "run sc_256 \<lparr>positional = [], options = ()\<rparr> = Inr 256"
    by (simp add: sc_256_def)
  show "main (demo_host (Single (Instance sc_256)) [Str ''big'']) =
     \<lparr>stderr = [], status = 0, invoked = [(''big'', \<lparr>positional = [], options = ()\<rparr>)]\<rparr>"
    by code_simp
  show "subCommandRunners [sc_123] ''123'' = Some (run sc_123)"
    by (simp add: subCommandRunners_def sc_123_def)
  show "main (demo_host (Single (Instance sc_123)) [Num ''123'']) =
     \<lparr>stderr = [[Text ''123: Unsupported sub-command'']], status = 1, invoked = []\<rparr>"
    by code_simp
qed

text \<open>
  C6, amended. When discovery succeeds, the argument parser returns the parsed command
  line, its first positional token is a string and a runner is registered under it: if
  the runner resolves with \<open>n\<close>, the process writes nothing to the error stream and exits
  with the status \<open>n mod 256\<close>, which is \<open>n\<close> itself when \<open>0 \<le> n \<le> 255\<close>; if the runner
  throws, \<open>main\<close> logs the thrown value and the process exits with status 1.
\<close>

theorem runner_exit_status:
  "(koolieBinDir h = Inr binDir \<and> subCommandFiles h binDir = Continue files \<and>
    importAll h files [] = Continue subCommands \<and> yargs_argv h subCommands = Parsed args \<and>
    positional args = Str key # rest \<and> subCommandRunners subCommands key = Some runner \<longrightarrow>
      (runner (args\<lparr>positional := rest\<rparr>) = Inr n \<longrightarrow>
         main h = \<lparr>stderr = [], status = n mod 256,
                   invoked = [(key, args\<lparr>positional := rest\<rparr>)]\<rparr> \<and>
         (0 \<le> n \<and> n \<le> 255 \<longrightarrow> status (main h) = n)) \<and>
      (runner (args\<lparr>positional := rest\<rparr>) = Inl err \<longrightarrow>
         main h = \<lparr>stderr = [[Thrown err]], status = 1,
                   invoked = [(key, args\<lparr>positional := rest\<rparr>)]\<rparr>))"
proof (intro impI conjI)
  assume a: "koolieBinDir h = Inr binDir \<and> subCommandFiles h binDir = Continue files \<and>
    importAll h files [] = Continue subCommands \<and> yargs_argv h subCommands = Parsed args \<and>
    positional args = Str key # rest \<and> subCommandRunners subCommands key = Some runner"
  then have m: "main h = dispatch (subCommandRunners subCommands) (Parsed args)"
    using main_dispatch [of h binDir files subCommands] by simp
  {
    assume r: "runner (args\<lparr>positional := rest\<rparr>) = Inr n"
    with a m show s: "main h = \<lparr>stderr = [], status = n mod 256,
                   invoked = [(key, args\<lparr>positional := rest\<rparr>)]\<rparr>"
      by (simp add: dispatch_resolves)
    assume "0 \<le> n \<and> n \<le> 255"
    with s show "status (main h) = n"
      by simp
  }
  {
    assume "runner (args\<lparr>positional := rest\<rparr>) = Inl err"
    with a m show "main h = \<lparr>stderr = [[Thrown err]], status = 1,
                   invoked = [(key, args\<lparr>positional := rest\<rparr>)]\<rparr>"
      by (simp add: dispatch_throws)
  }
qed

theorem runner_exit_status_witness:
  "main (demo_host (Array [Instance sc_ok, NotInstance, Instance sc_fail]) [Str ''ok'', Str ''x''])
     = \<lparr>stderr = [], status = 7, invoked = [(''ok'', \<lparr>positional = [Str ''x''], options = ()\<rparr>)]\<rparr> \<and>
   main (demo_host (Array [Instance sc_ok, NotInstance, Instance sc_fail]) [Str ''fail'', Str ''x''])
     = \<lparr>stderr = [[Thrown (Exception None ''boom'')]], status = 1,
        invoked = [(''fail'', \<lparr>positional = [Str ''x''], options = ()\<rparr>)]\<rparr>"
proof -
  let ?M = "Array [Instance sc_ok, NotInstance, Instance sc_fail]"
  have i: "importAll (demo_host ?M tokens) [''/opt/koolie/bin/koolie-SubCmdDemo.js''] []
             = Continue [sc_ok, sc_fail]" for tokens
    by (simp add: demo_host_discovery importSubCommandSourceFile_def List.map_filter_simps)
  have ok: "subCommandRunners [sc_ok, sc_fail] ''ok'' = Some (run sc_ok)"
    by (simp add: subCommandRunners_def sc_ok_def sc_fail_def)
  have fail: "subCommandRunners [sc_ok, sc_fail] ''fail'' = Some (run sc_fail)"
    by (simp add: subCommandRunners_def sc_ok_def sc_fail_def)
  have r1: "run sc_ok (\<lparr>positional = [Str ''ok'', Str ''x''], options = ()\<rparr>\<lparr>positional := [Str ''x'']\<rparr>)
              = Inr 7"
    by (simp add: sc_ok_def)
  have r2: "run sc_fail (\<lparr>positional = [Str ''fail'', Str ''x''], options = ()\<rparr>\<lparr>positional := [Str ''x'']\<rparr>)
              = Inl (Exception None ''boom'')"
    by (simp add: sc_fail_def)
  have "main (demo_host ?M [Str ''ok'', Str ''x''])
     = \<lparr>stderr = [], status = 7,
        invoked = [(''ok'', \<lparr>positional = [Str ''ok'', Str ''x''], options = ()\<rparr>\<lparr>positional := [Str ''x'']\<rparr>)]\<rparr>"
    using runner_exit_status [of "demo_host ?M [Str ''ok'', Str ''x'']" "''/opt/koolie/bin''"
        "[''/opt/koolie/bin/koolie-SubCmdDemo.js'']" "[sc_ok, sc_fail]"
        "\<lparr>positional = [Str ''ok'', Str ''x''], options = ()\<rparr>" "''ok''" "[Str ''x'']" "run sc_ok" 7]
      i ok r1
    by (simp add: demo_host_discovery)
  moreover have "main (demo_host ?M [Str ''fail'', Str ''x''])
     = \<lparr>stderr = [[Thrown (Exception None ''boom'')]], status = 1,
        invoked = [(''fail'', \<lparr>positional = [Str ''fail'', Str ''x''], options = ()\<rparr>\<lparr>positional := [Str ''x'']\<rparr>)]\<rparr>"
    using runner_exit_status [of "demo_host ?M [Str ''fail'', Str ''x'']" "''/opt/koolie/bin''"
        "[''/opt/koolie/bin/koolie-SubCmdDemo.js'']" "[sc_ok, sc_fail]"
        "\<lparr>positional = [Str ''fail'', Str ''x''], options = ()\<rparr>" "''fail''" "[Str ''x'']" "run sc_fail" _
        "Exception None ''boom''"]
      i fail r2
    by (simp add: demo_host_discovery)
  ultimately show ?thesis by simp
qed

section \<open>Two sub-commands of one name\<close>

text \<open>
  C2, as stated, fails: of two sub-commands named \<open>dup\<close>, the map holds the runner of the
  second, and the process, asked for \<open>dup\<close>, exits with the second runner's code without
  a word on the error stream.
\<close>

theorem registry_overwrite_counterexample:
  "subCommandRunners [dup_first, dup_second] ''dup'' = Some (run dup_second) \<and>
   subCommandRunners [dup_first, dup_second] ''dup'' \<noteq> Some (run dup_first) \<and>
   main (demo_host (Array [Instance dup_first, Instance dup_second]) [Str ''dup''])
     = \<lparr>stderr = [], status = 1, invoked = [(''dup'', \<lparr>positional = [], options = ()\<rparr>)]\<rparr>"
proof (intro conjI)
  show s: "subCommandRunners [dup_first, dup_second] ''dup'' = Some (run dup_second)"
    by (simp add: subCommandRunners_def dup_first_def dup_second_def)
  have "run dup_second \<lparr>positional = [], options = ()\<rparr> \<noteq> run dup_first \<lparr>positional = [], options = ()\<rparr>"
    by (simp add: dup_first_def dup_second_def)
  then have "run dup_second \<noteq> run dup_first"
    by metis
  with s show "subCommandRunners [dup_first, dup_second] ''dup'' \<noteq> Some (run dup_first)"
    by simp
  show "main (demo_host (Array [Instance dup_first, Instance dup_second]) [Str ''dup''])
     = \<lparr>stderr = [], status = 1, invoked = [(''dup'', \<lparr>positional = [], options = ()\<rparr>)]\<rparr>"
    by code_simp
qed

text \<open>
  C2, amended. The runner registered under a name is the runner of the last sub-command
  discovered with that name (none when no sub-command has the name).
\<close>

theorem registry_last_wins:
  "subCommandRunners subCommands key =
     (case find (\<lambda>sc. name sc = key) (rev subCommands) of
        Some sc \<Rightarrow> Some (run sc)
      | None \<Rightarrow> None)"
  by (simp add: subCommandRunners_def runners_fold)

section \<open>The directory searched for sub-command files\<close>

text \<open>
  C9, as stated, fails: the project-local directory holds a regular file \<open>koolie.cmd\<close>, yet
  \<open>stat\<close> of \<open>koolie\<close> fails with \<open>EACCES\<close>, the failure is thrown again, no directory is
  chosen, and the process ends with status 1.
\<close>

theorem module_search_directory_counterexample:
  "stat_eacces ''/w/node_modules/.bin/koolie.cmd'' = Inr File \<and>
   koolieBinDir ((demo_host Undefined []) \<lparr>fs_stat := stat_eacces\<rparr>)
     = Inl (Exception (Some ''EACCES'') ''permission denied'') \<and>
   main ((demo_host Undefined []) \<lparr>fs_stat := stat_eacces\<rparr>)
     = \<lparr>stderr = [[Text ''Caught unexpected exception'',
                    Thrown (Exception (Some ''EACCES'') ''permission denied'')]],
        status = 1, invoked = []\<rparr>"
  by code_simp

text \<open>
  C9, amended. Let \<open>bin\<close> be the project-local directory and \<open>koolie\<close>, \<open>koolieCmd\<close> the two
  paths probed in it. When \<open>stat\<close> fails on neither path with a code other than \<open>ENOENT\<close>,
  the directory searched is \<open>bin\<close> if \<open>stat\<close> finds a regular file at one of the two paths,
  and the directory of the host script otherwise, and nothing is thrown. A regular file
  at \<open>koolie\<close> selects \<open>bin\<close> without a second probe. A failure of \<open>stat\<close> with another code,
  at \<open>koolie\<close>, or at \<open>koolieCmd\<close> when \<open>koolie\<close> is no regular file, is thrown, and a
  failure that is thrown ends the process with status 1.
\<close>

theorem module_search_directory:
  "(bin = path_join h [process_cwd h, ''node_modules'', ''.bin''] \<and>
    koolie = path_join h [bin, ''koolie''] \<and> koolieCmd = path_join h [bin, ''koolie.cmd''] \<longrightarrow>
      ((\<forall>err. fs_stat h koolie = Inl err \<longrightarrow> code err = Some ''ENOENT'') \<and>
       (\<forall>err. fs_stat h koolieCmd = Inl err \<longrightarrow> code err = Some ''ENOENT'') \<longrightarrow>
         koolieBinDir h =
           Inr (if fs_stat h koolie = Inr File \<or> fs_stat h koolieCmd = Inr File then bin
                else path_dirname h (process_argv1 h))) \<and>
      (fs_stat h koolie = Inr File \<longrightarrow> koolieBinDir h = Inr bin) \<and>
      (fs_stat h koolie = Inl err \<and> code err \<noteq> Some ''ENOENT'' \<longrightarrow> koolieBinDir h = Inl err) \<and>
      (fs_stat h koolie \<noteq> Inr File \<and>
       (\<forall>err. fs_stat h koolie = Inl err \<longrightarrow> code err = Some ''ENOENT'') \<and>
       fs_stat h koolieCmd = Inl err \<and> code err \<noteq> Some ''ENOENT'' \<longrightarrow> koolieBinDir h = Inl err)) \<and>
   (koolieBinDir h = Inl err \<longrightarrow>
      main h = \<lparr>stderr = [[Text ''Caught unexpected exception'', Thrown err]], status = 1,
                invoked = []\<rparr>)"
proof (rule conjI, rule impI)
  assume "bin = path_join h [process_cwd h, ''node_modules'', ''.bin''] \<and>
    koolie = path_join h [bin, ''koolie''] \<and> koolieCmd = path_join h [bin, ''koolie.cmd'']"
  then have e: "path_join h [process_cwd h, ''node_modules'', ''.bin''] = bin"
    "path_join h [bin, ''koolie''] = koolie" "path_join h [bin, ''koolie.cmd''] = koolieCmd"
    by simp_all
  have k: "koolieBinDir h =
      (case fileExists (fs_stat h) koolie of
         Inl err \<Rightarrow> Inl err
       | Inr True \<Rightarrow> Inr bin
       | Inr False \<Rightarrow>
           (case fileExists (fs_stat h) koolieCmd of
              Inl err \<Rightarrow> Inl err
            | Inr True \<Rightarrow> Inr bin
            | Inr False \<Rightarrow> Inr (path_dirname h (process_argv1 h))))"
    by (simp only: koolieBinDir_def Let_def e)
  show "((\<forall>err. fs_stat h koolie = Inl err \<longrightarrow> code err = Some ''ENOENT'') \<and>
       (\<forall>err. fs_stat h koolieCmd = Inl err \<longrightarrow> code err = Some ''ENOENT'') \<longrightarrow>
         koolieBinDir h =
           Inr (if fs_stat h koolie = Inr File \<or> fs_stat h koolieCmd = Inr File then bin
                else path_dirname h (process_argv1 h))) \<and>
      (fs_stat h koolie = Inr File \<longrightarrow> koolieBinDir h = Inr bin) \<and>
      (fs_stat h koolie = Inl err \<and> code err \<noteq> Some ''ENOENT'' \<longrightarrow> koolieBinDir h = Inl err) \<and>
      (fs_stat h koolie \<noteq> Inr File \<and>
       (\<forall>err. fs_stat h koolie = Inl err \<longrightarrow> code err = Some ''ENOENT'') \<and>
       fs_stat h koolieCmd = Inl err \<and> code err \<noteq> Some ''ENOENT'' \<longrightarrow> koolieBinDir h = Inl err)"
    unfolding k fileExists_cases
    by (cases "fs_stat h koolie"; cases "fs_stat h koolieCmd") (auto split: bool.splits)
next
  show "koolieBinDir h = Inl err \<longrightarrow>
      main h = \<lparr>stderr = [[Text ''Caught unexpected exception'', Thrown err]], status = 1,
                invoked = []\<rparr>"
    by (simp add: main_def)
qed

theorem module_search_directory_witness:
  "koolieBinDir (demo_host Undefined []) = Inr ''/opt/koolie/bin'' \<and>
   koolieBinDir ((demo_host Undefined []) \<lparr>fs_stat := stat_eacces\<rparr>)
     = Inl (Exception (Some ''EACCES'') ''permission denied'')"
proof -
  let ?h = "demo_host Undefined []"
  let ?g = "(demo_host Undefined []) \<lparr>fs_stat := stat_eacces\<rparr>"
  have j: "''/w/node_modules/.bin'' = path_join ?h [process_cwd ?h, ''node_modules'', ''.bin''] \<and>
           ''/w/node_modules/.bin/koolie'' = path_join ?h [''/w/node_modules/.bin'', ''koolie''] \<and>
           ''/w/node_modules/.bin/koolie.cmd'' = path_join ?h [''/w/node_modules/.bin'', ''koolie.cmd'']"
    by code_simp
  have s: "(\<forall>err. fs_stat ?h ''/w/node_modules/.bin/koolie'' = Inl err \<longrightarrow> code err = Some ''ENOENT'') \<and>
           (\<forall>err. fs_stat ?h ''/w/node_modules/.bin/koolie.cmd'' = Inl err \<longrightarrow> code err = Some ''ENOENT'')"
    by (simp add: demo_host_def stat_enoent_def)
  have e: "(if fs_stat ?h ''/w/node_modules/.bin/koolie'' = Inr File \<or>
               fs_stat ?h ''/w/node_modules/.bin/koolie.cmd'' = Inr File
            then ''/w/node_modules/.bin'' else path_dirname ?h (process_argv1 ?h)) = ''/opt/koolie/bin''"
    by code_simp
  note t = module_search_directory [of "''/w/node_modules/.bin''" ?h "''/w/node_modules/.bin/koolie''"
      "''/w/node_modules/.bin/koolie.cmd''", THEN conjunct1, THEN mp, OF j]
  from t [THEN conjunct1, THEN mp, OF s] e
  have a: "koolieBinDir ?h = Inr ''/opt/koolie/bin''"
    by (simp only:)
  have j': "''/w/node_modules/.bin'' = path_join ?g [process_cwd ?g, ''node_modules'', ''.bin''] \<and>
           ''/w/node_modules/.bin/koolie'' = path_join ?g [''/w/node_modules/.bin'', ''koolie''] \<and>
           ''/w/node_modules/.bin/koolie.cmd'' = path_join ?g [''/w/node_modules/.bin'', ''koolie.cmd'']"
    by code_simp
  have s': "fs_stat ?g ''/w/node_modules/.bin/koolie'' = Inl (Exception (Some ''EACCES'') ''permission denied'') \<and>
            code (Exception (Some ''EACCES'') ''permission denied'') \<noteq> Some ''ENOENT''"
    by (simp add: stat_eacces_def)
  note t' = module_search_directory [of "''/w/node_modules/.bin''" ?g "''/w/node_modules/.bin/koolie''"
      "''/w/node_modules/.bin/koolie.cmd''" "Exception (Some ''EACCES'') ''permission denied''",
      THEN conjunct1, THEN mp, OF j']
  from t' [THEN conjunct2, THEN conjunct2, THEN conjunct1, THEN mp, OF s']
  have b: "koolieBinDir ?g = Inl (Exception (Some ''EACCES'') ''permission denied'')" .
  from a b show ?thesis by (intro conjI)
qed

section \<open>The wrapper pattern\<close>

text \<open>
  What \<open>wrapperGroup\<close> and \<open>wrapperExec\<close> return: a match ends with \<open>.js\<close> and holds no line
  terminator before it; the star gives back nothing when no later \<open>.js\<close> stands on the
  line; and the first occurrence of \<open>dotDotBackslash\<close> that is followed by a match wins.
\<close>

lemma js_not_lineTerminator:
  "\<not> lineTerminator (CHR ''.'')" "\<not> lineTerminator (CHR ''j'')" "\<not> lineTerminator (CHR ''s'')"
  by (simp_all add: lineTerminator_def)

lemma wrapperGroup_Some:
  "wrapperGroup s = Some g \<Longrightarrow>
     \<exists>x rest. g = x @ ''.js'' \<and> s = g @ rest \<and> (\<forall>c\<in>set x. \<not> lineTerminator c)"
proof (induction s arbitrary: g)
  case Nil
  then show ?case by simp
next
  case (Cons c cs)
  show ?case
  proof (cases "if lineTerminator c then None else wrapperGroup cs")
    case None
    with Cons.prems have p: "prefix ''.js'' (c # cs)" and g: "g = ''.js''"
      by (auto split: if_splits)
    from p obtain rest where "c # cs = ''.js'' @ rest"
      by (auto simp: prefix_def)
    with g show ?thesis
      by (intro exI [of _ "[]"] exI [of _ rest]) simp
  next
    case (Some g')
    then have c: "\<not> lineTerminator c" and w: "wrapperGroup cs = Some g'"
      by (auto split: if_splits)
    from Some Cons.prems have g: "g = c # g'"
      by simp
    from Cons.IH [OF w] obtain x rest where
      "g' = x @ ''.js''" "cs = g' @ rest" "\<forall>c\<in>set x. \<not> lineTerminator c"
      by blast
    with c g show ?thesis
      by (intro exI [of _ "c # x"] exI [of _ rest]) simp
  qed
qed

lemma wrapperGroup_exists:
  "\<forall>c\<in>set x. \<not> lineTerminator c \<Longrightarrow> wrapperGroup (x @ ''.js'' @ rest) \<noteq> None"
proof (induction x)
  case Nil
  show ?case by (simp split: option.splits)
next
  case (Cons c x)
  then show ?case by (auto split: option.splits)
qed

lemma wrapperGroup_after_dot:
  assumes "\<not> (\<exists>u v. takeWhile (\<lambda>c. \<not> lineTerminator c) post = u @ ''.js'' @ v)"
  shows "wrapperGroup (''js'' @ post) = None"
proof (rule ccontr)
  assume "wrapperGroup (''js'' @ post) \<noteq> None"
  then obtain g where "wrapperGroup (''js'' @ post) = Some g"
    by blast
  from wrapperGroup_Some [OF this] obtain x rest where
    e: "''js'' @ post = (x @ ''.js'') @ rest" and x: "\<forall>c\<in>set x. \<not> lineTerminator c"
    by blast
  from e obtain x' where x': "x = ''js'' @ x'" and p: "post = x' @ ''.js'' @ rest"
    by (cases x; cases "tl x"; cases "tl (tl x)") auto
  from x x' have "\<forall>c\<in>set (x' @ ''.js''). \<not> lineTerminator c"
    by (auto simp: lineTerminator_def)
  then have "takeWhile (\<lambda>c. \<not> lineTerminator c) ((x' @ ''.js'') @ rest) =
             (x' @ ''.js'') @ takeWhile (\<lambda>c. \<not> lineTerminator c) rest"
    by (intro takeWhile_append2) blast
  with p have "takeWhile (\<lambda>c. \<not> lineTerminator c) post =
               x' @ ''.js'' @ takeWhile (\<lambda>c. \<not> lineTerminator c) rest"
    by simp
  with assms show False by blast
qed

lemma wrapperGroup_greedy:
  assumes "\<forall>c\<in>set mid. \<not> lineTerminator c"
    and "\<not> (\<exists>u v. takeWhile (\<lambda>c. \<not> lineTerminator c) post = u @ ''.js'' @ v)"
  shows "wrapperGroup (mid @ ''.js'' @ post) = Some (mid @ ''.js'')"
  using assms(1)
proof (induction mid)
  case Nil
  from wrapperGroup_after_dot [OF assms(2)] show ?case
    by (simp add: js_not_lineTerminator)
next
  case (Cons c mid)
  then show ?case by simp
qed

lemma wrapperExec_here:
  "wrapperGroup rest = Some g \<Longrightarrow> wrapperExec (dotDotBackslash @ rest) = Some g"
  by (simp add: dotDotBackslash_def)

lemma wrapperExec_skip:
  "\<not> prefix dotDotBackslash (c # cs) \<Longrightarrow> wrapperExec (c # cs) = wrapperExec cs"
  by simp

lemma no_straddle:
  assumes "\<not> (\<exists>u v. c # pre = u @ dotDotBackslash @ v)"
  shows "\<not> prefix dotDotBackslash (c # pre @ dotDotBackslash @ rest)"
proof
  assume "prefix dotDotBackslash (c # pre @ dotDotBackslash @ rest)"
  then have "\<exists>v. c # pre = dotDotBackslash @ v"
    by (cases pre; cases "tl pre") (auto simp: dotDotBackslash_def)
  then have "\<exists>u v. c # pre = u @ dotDotBackslash @ v"
    by (metis append_Nil)
  with assms show False by blast
qed

lemma wrapperExec_first:
  assumes "\<not> (\<exists>u v. pre = u @ dotDotBackslash @ v)" and "wrapperGroup rest = Some g"
  shows "wrapperExec (pre @ dotDotBackslash @ rest) = Some g"
  using assms(1)
proof (induction pre)
  case Nil
  from assms(2) show ?case by (simp add: wrapperExec_here)
next
  case (Cons c pre)
  have "\<not> (\<exists>u v. pre = u @ dotDotBackslash @ v)"
  proof
    assume "\<exists>u v. pre = u @ dotDotBackslash @ v"
    then obtain u v where "pre = u @ dotDotBackslash @ v" by blast
    then have "c # pre = (c # u) @ dotDotBackslash @ v" by simp
    with Cons.prems show False by blast
  qed
  then have ih: "wrapperExec (pre @ dotDotBackslash @ rest) = Some g"
    by (rule Cons.IH)
  have "wrapperExec (c # pre @ dotDotBackslash @ rest) = wrapperExec (pre @ dotDotBackslash @ rest)"
    by (rule wrapperExec_skip) (rule no_straddle [OF Cons.prems])
  with ih show ?case by (simp only: append_Cons)
qed

lemma wrapperExec_Some:
  "wrapperExec s = Some g \<Longrightarrow>
     \<exists>pre rest. s = pre @ dotDotBackslash @ rest \<and> wrapperGroup rest = Some g"
proof (induction s)
  case Nil
  then show ?case by simp
next
  case (Cons c cs)
  show ?case
  proof (cases "if prefix dotDotBackslash (c # cs) then wrapperGroup (drop 3 (c # cs)) else None")
    case None
    with Cons.prems have "wrapperExec cs = Some g" by simp
    from Cons.IH [OF this] obtain pre rest where
      "cs = pre @ dotDotBackslash @ rest" "wrapperGroup rest = Some g"
      by blast
    then show ?thesis
      by (intro exI [of _ "c # pre"] exI [of _ rest]) simp
  next
    case (Some g')
    then have p: "prefix dotDotBackslash (c # cs)" and w: "wrapperGroup (drop 3 (c # cs)) = Some g'"
      by (auto split: if_splits)
    from Some Cons.prems have "g' = g" by simp
    from p obtain rest where r: "c # cs = dotDotBackslash @ rest"
      by (auto simp: prefix_def)
    then have "drop 3 (c # cs) = rest"
      by (simp add: dotDotBackslash_def)
    with w \<open>g' = g\<close> r show ?thesis
      by (intro exI [of _ "[]"] exI [of _ rest]) simp
  qed
qed

lemma wrapperExec_exists:
  assumes "\<forall>c\<in>set mid. \<not> lineTerminator c"
  shows "wrapperExec (pre @ dotDotBackslash @ mid @ ''.js'' @ post) \<noteq> None"
proof (induction pre)
  case Nil
  from wrapperGroup_exists [OF assms, of post] obtain g where
    "wrapperGroup (mid @ ''.js'' @ post) = Some g"
    by blast
  then show ?case by (simp add: wrapperExec_here)
next
  case (Cons c pre)
  then show ?case by (auto split: option.splits)
qed

lemma wrapperExec_None_iff:
  "wrapperExec s = None \<longleftrightarrow>
     \<not> (\<exists>pre mid post. s = pre @ dotDotBackslash @ mid @ ''.js'' @ post \<and>
                         (\<forall>c\<in>set mid. \<not> lineTerminator c))"
proof
  assume n: "wrapperExec s = None"
  show "\<not> (\<exists>pre mid post. s = pre @ dotDotBackslash @ mid @ ''.js'' @ post \<and>
                         (\<forall>c\<in>set mid. \<not> lineTerminator c))"
  proof
    assume "\<exists>pre mid post. s = pre @ dotDotBackslash @ mid @ ''.js'' @ post \<and>
                         (\<forall>c\<in>set mid. \<not> lineTerminator c)"
    then obtain pre mid post where "s = pre @ dotDotBackslash @ mid @ ''.js'' @ post"
      and "\<forall>c\<in>set mid. \<not> lineTerminator c"
      by blast
    with wrapperExec_exists [of mid pre post] n show False by simp
  qed
next
  assume a: "\<not> (\<exists>pre mid post. s = pre @ dotDotBackslash @ mid @ ''.js'' @ post \<and>
                         (\<forall>c\<in>set mid. \<not> lineTerminator c))"
  show "wrapperExec s = None"
  proof (rule ccontr)
    assume "wrapperExec s \<noteq> None"
    then obtain g where "wrapperExec s = Some g" by blast
    from wrapperExec_Some [OF this] obtain pre rest where
      s: "s = pre @ dotDotBackslash @ rest" and "wrapperGroup rest = Some g"
      by blast
    from wrapperGroup_Some [OF this(2)] obtain x post where
      "g = x @ ''.js''" "rest = g @ post" "\<forall>c\<in>set x. \<not> lineTerminator c"
      by blast
    with s have "s = pre @ dotDotBackslash @ x @ ''.js'' @ post \<and> (\<forall>c\<in>set x. \<not> lineTerminator c)"
      by simp
    with a show False by blast
  qed
qed

section \<open>The wrapper translation\<close>

text \<open>
  C8, as stated, fails: \<open>two_references\<close> contains the reference to \<open>a.js\<close> in \<open>p\<close> and, later
  on the same line, the reference to \<open>b.js\<close> in \<open>q\<close>; what is extracted is neither the
  path of the first nor the path of the second, but the text from the first path to the
  end of the second.
\<close>

theorem wrapper_translation_counterexample:
  "two_references =
     dotDotBackslash @ (''p'' @ [CHR 0x5C] @ ''a.js'') @ '' '' @ dotDotBackslash
       @ (''q'' @ [CHR 0x5C] @ ''b.js'') \<and>
   wrapperExec two_references \<noteq> Some (''p'' @ [CHR 0x5C] @ ''a.js'') \<and>
   wrapperExec two_references \<noteq> Some (''q'' @ [CHR 0x5C] @ ''b.js'') \<and>
   wrapperExec two_references =
     Some (''p'' @ [CHR 0x5C] @ ''a.js'' @ '' '' @ dotDotBackslash @ ''q'' @ [CHR 0x5C] @ ''b.js'')"
  by code_simp

text \<open>
  C8, amended. When the body is \<open>pre\<close>, \<open>dotDotBackslash\<close>, \<open>mid\<close>, \<open>.js\<close>, \<open>post\<close>, where
  \<open>pre\<close> contains no \<open>dotDotBackslash\<close>, \<open>mid\<close> contains no line terminator and \<open>post\<close>
  contains no \<open>.js\<close> before its first line terminator, the translation extracts \<open>mid\<close>
  followed by \<open>.js\<close> and imports the \<open>path.join\<close> of the working directory,
  \<open>node_modules\<close> and that text. The pattern matches nowhere exactly when the body
  contains no \<open>dotDotBackslash\<close> followed on the same line by \<open>.js\<close>; then nothing is
  imported, the list of sub-commands is unchanged, and discovery continues.
\<close>

theorem wrapper_translation:
  "(fs_readFile h wrapper = Inr (pre @ dotDotBackslash @ mid @ ''.js'' @ post) \<and>
    \<not> sublist dotDotBackslash pre \<and> (\<forall>c\<in>set mid. \<not> lineTerminator c) \<and>
    \<not> sublist ''.js'' (takeWhile (\<lambda>c. \<not> lineTerminator c) post) \<longrightarrow>
      wrapperExec (pre @ dotDotBackslash @ mid @ ''.js'' @ post) = Some (mid @ ''.js'') \<and>
      importWindowsSubCommand h wrapper subCommands =
        importSubCommandSourceFile h
          (path_join h [process_cwd h, ''node_modules'', mid @ ''.js'']) subCommands) \<and>
   (wrapperExec contents = None \<longleftrightarrow>
      \<not> (\<exists>pre mid post. contents = pre @ dotDotBackslash @ mid @ ''.js'' @ post \<and>
                          (\<forall>c\<in>set mid. \<not> lineTerminator c))) \<and>
   (fs_readFile h wrapper = Inr contents \<and> wrapperExec contents = None \<longrightarrow>
      importWindowsSubCommand h wrapper subCommands = Continue subCommands)"
proof (intro conjI impI)
  assume a: "fs_readFile h wrapper = Inr (pre @ dotDotBackslash @ mid @ ''.js'' @ post) \<and>
    \<not> sublist dotDotBackslash pre \<and> (\<forall>c\<in>set mid. \<not> lineTerminator c) \<and>
    \<not> sublist ''.js'' (takeWhile (\<lambda>c. \<not> lineTerminator c) post)"
  then have "wrapperGroup (mid @ ''.js'' @ post) = Some (mid @ ''.js'')"
    by (intro wrapperGroup_greedy) (auto simp: sublist_def)
  moreover from a have "\<not> (\<exists>u v. pre = u @ dotDotBackslash @ v)"
    by (auto simp: sublist_def)
  ultimately show e: "wrapperExec (pre @ dotDotBackslash @ mid @ ''.js'' @ post) = Some (mid @ ''.js'')"
    by (intro wrapperExec_first)
  from a e show "importWindowsSubCommand h wrapper subCommands =
        importSubCommandSourceFile h
          (path_join h [process_cwd h, ''node_modules'', mid @ ''.js'']) subCommands"
    by (simp add: importWindowsSubCommand_def)
next
  show "wrapperExec contents = None \<longleftrightarrow>
      \<not> (\<exists>pre mid post. contents = pre @ dotDotBackslash @ mid @ ''.js'' @ post \<and>
                          (\<forall>c\<in>set mid. \<not> lineTerminator c))"
    by (rule wrapperExec_None_iff)
next
  assume "fs_readFile h wrapper = Inr contents \<and> wrapperExec contents = None"
  then show "importWindowsSubCommand h wrapper subCommands = Continue subCommands"
    by (simp add: importWindowsSubCommand_def)
qed

theorem wrapper_translation_witness:
  "fs_readFile wrapper_host ''wrapper.cmd''
     = Inr ((''@'' @ [CHR 0x22] @ ''%~dp0'' @ [CHR 0x5C]) @ dotDotBackslash
            @ (''pkg'' @ [CHR 0x5C] @ ''koolie-SubCmdDemo'') @ ''.js'' @ ([CHR 0x22] @ ''   %*'')) \<and>
   importWindowsSubCommand wrapper_host ''wrapper.cmd'' []
     = importSubCommandSourceFile wrapper_host
         (''/w/node_modules/pkg'' @ [CHR 0x5C] @ ''koolie-SubCmdDemo.js'') [] \<and>
   importSubCommandSourceFile wrapper_host
         (''/w/node_modules/pkg'' @ [CHR 0x5C] @ ''koolie-SubCmdDemo.js'') [] = Continue [sc_ok] \<and>
   fs_readFile wrapper_host ''other.cmd'' = Inr ''@ECHO off'' \<and>
   importWindowsSubCommand wrapper_host ''other.cmd'' [] = Continue []"
proof -
  let ?pre = "''@'' @ [CHR 0x22] @ ''%~dp0'' @ [CHR 0x5C]"
  let ?mid = "''pkg'' @ [CHR 0x5C] @ ''koolie-SubCmdDemo''"
  let ?post = "[CHR 0x22] @ ''   %*''"
  have r: "fs_readFile wrapper_host ''wrapper.cmd''
             = Inr (?pre @ dotDotBackslash @ ?mid @ ''.js'' @ ?post)"
    by code_simp
  have p: "\<not> sublist dotDotBackslash ?pre"
    by code_simp
  have m: "\<forall>c\<in>set ?mid. \<not> lineTerminator c"
    by code_simp
  have q: "\<not> sublist ''.js'' (takeWhile (\<lambda>c. \<not> lineTerminator c) ?post)"
    by code_simp
  have j: "path_join wrapper_host [process_cwd wrapper_host, ''node_modules'', ?mid @ ''.js'']
             = ''/w/node_modules/pkg'' @ [CHR 0x5C] @ ''koolie-SubCmdDemo.js''"
    by code_simp
  have o: "fs_readFile wrapper_host ''other.cmd'' = Inr ''@ECHO off''"
    by code_simp
  have n: "wrapperExec ''@ECHO off'' = None"
    by code_simp
  have i: "importSubCommandSourceFile wrapper_host
         (''/w/node_modules/pkg'' @ [CHR 0x5C] @ ''koolie-SubCmdDemo.js'') [] = Continue [sc_ok]"
    by (simp add: importSubCommandSourceFile_def wrapper_host_def)
  note t = wrapper_translation [of wrapper_host "''wrapper.cmd''" ?pre ?mid ?post "[]" "''@ECHO off''"]
  from t [THEN conjunct1, THEN mp, OF conjI [OF r conjI [OF p conjI [OF m q]]], THEN conjunct2] j
  have a: "importWindowsSubCommand wrapper_host ''wrapper.cmd'' []
     = importSubCommandSourceFile wrapper_host
         (''/w/node_modules/pkg'' @ [CHR 0x5C] @ ''koolie-SubCmdDemo.js'') []"
    by (simp only:)
  note t' = wrapper_translation [of wrapper_host "''other.cmd''" "[]" "[]" "[]" "[]" "''@ECHO off''"]
  from t' [THEN conjunct2, THEN conjunct2, THEN mp, OF conjI [OF o n]]
  have b: "importWindowsSubCommand wrapper_host ''other.cmd'' [] = Continue []" .
  from r a i o b show ?thesis by (intro conjI)
qed

end
